theory Spec2Isabelle
  imports Main "HOL-Library.Word"
begin

chapter \<open>AutoDeploy Agent: the provisioning service and the page's handlers\<close>

text \<open>
  The development follows the two source files. \<^verbatim>\<open>services/githubService.ts\<close> holds
  three asynchronous functions over \<^verbatim>\<open>fetch\<close>; \<^verbatim>\<open>App.tsx\<close> holds the page's state
  and the handlers of its buttons. Network calls are awaited one after the other, so a
  call is a function from the state before it to its outcome and the state after it.
\<close>

section \<open>JavaScript strings\<close>

text \<open>
  A JavaScript string is a sequence of UTF-16 code units. String literals of the source
  are written with \<open>lit\<close>; template strings are concatenations.
\<close>

type_synonym jsstring = "16 word list"

definition lit :: "string \<Rightarrow> jsstring" where
  "lit s = map (\<lambda>c. of_nat (of_char c)) s"

text \<open>\<^verbatim>\<open>String.prototype.includes\<close>: the search string occurs at some position.\<close>

fun includes_js :: "jsstring \<Rightarrow> jsstring \<Rightarrow> bool" where
  "includes_js [] sub = (sub = [])"
| "includes_js (c # cs) sub = (take (length sub) (c # cs) = sub \<or> includes_js cs sub)"

text \<open>
  The code units that \<^verbatim>\<open>String.prototype.trim\<close> strips: ECMAScript's WhiteSpace
  (TAB, VT, FF, SP, NBSP, ZWNBSP and the space separators) and LineTerminator
  (LF, CR, LS, PS). All of them lie in the basic plane, so one code unit each.
\<close>

definition isWhiteSpace :: "16 word \<Rightarrow> bool" where
  "isWhiteSpace c \<longleftrightarrow> c \<in> set [9, 10, 11, 12, 13, 32, 160, 5760,
     8192, 8193, 8194, 8195, 8196, 8197, 8198, 8199, 8200, 8201, 8202,
     8232, 8233, 8239, 8287, 12288, 65279]"

definition trim :: "jsstring \<Rightarrow> jsstring" where
  "trim s = rev (dropWhile isWhiteSpace (rev (dropWhile isWhiteSpace s)))"

text \<open>Decimal rendering of an array length inside a template string.\<close>

fun nat_to_string :: "nat \<Rightarrow> jsstring" where
  "nat_to_string n =
     (if n < 10 then [of_nat (48 + n)]
      else nat_to_string (n div 10) @ [of_nat (48 + n mod 10)])"

declare nat_to_string.simps [simp del]


section \<open>Promises, requests and responses\<close>

text \<open>
  A thrown \<^verbatim>\<open>Error\<close> is a value carrying its message. An awaited call runs on a state
  and either throws (\<open>Inl\<close>) or returns (\<open>Inr\<close>), together with the state it leaves.
\<close>

datatype js_error = Error (message: jsstring)

type_synonym ('a, 's) promise = "'s \<Rightarrow> (js_error + 'a) \<times> 's"

datatype Method = GET | POST | PUT

text \<open>
  The two request bodies that the service passes to \<^verbatim>\<open>JSON.stringify\<close>:
  \<^verbatim>\<open>{ name, description, private, auto_init }\<close> and \<^verbatim>\<open>{ message, content, sha }\<close>
  (an undefined \<^verbatim>\<open>sha\<close> is \<open>None\<close>).
\<close>

datatype Body =
    RepoBody jsstring jsstring bool bool
  | ContentBody jsstring jsstring "jsstring option"

text \<open>
  The argument of \<^verbatim>\<open>fetch\<close>: the URL and the \<^verbatim>\<open>method\<close>, \<^verbatim>\<open>headers\<close> and
  \<^verbatim>\<open>body\<close> options (the method is \<open>GET\<close> when the source gives none).
\<close>

record Request =
  http_method :: Method
  url :: jsstring
  headers :: "(jsstring \<times> jsstring) list"
  body :: "Body option"

text \<open>
  Modelled from the spec: the JSON shapes of the source-control service are not declared
  in the sources; section 6 of the specification gives them (an account login, a
  repository with its URL, a prior-content marker), and the code itself tests
  \<^verbatim>\<open>err.message\<close> and \<^verbatim>\<open>checkData.sha\<close> for presence. A parsed body is
  the record of the properties that the code reads.

  The body of a successful creation is returned as it was parsed and its
  \<^verbatim>\<open>html_url\<close> is read unchecked, so that property is a string, \<^verbatim>\<open>null\<close> or
  absent. In a template string the last two print as \<^verbatim>\<open>null\<close> and
  \<^verbatim>\<open>undefined\<close>; stored in a \<^verbatim>\<open>useState<string | null>\<close> cell they leave it
  without a string, which is \<open>None\<close>.
\<close>

datatype Property = Undefined | Null | Value jsstring

fun template :: "Property \<Rightarrow> jsstring" where
  "template Undefined = lit ''undefined''"
| "template Null = lit ''null''"
| "template (Value v) = v"

fun stored :: "Property \<Rightarrow> jsstring option" where
  "stored Undefined = None"
| "stored Null = None"
| "stored (Value v) = Some v"

record Repo =
  repo_name :: jsstring
  html_url :: Property

record Json =
  login :: jsstring
  err_message :: "jsstring option"
  sha :: "jsstring option"
  repo :: Repo

text \<open>
  A response: its \<^verbatim>\<open>ok\<close> flag and what \<^verbatim>\<open>await response.json()\<close> gives, which
  is the parsed body or, for a body that is not JSON, a thrown error.
\<close>

record Response =
  ok :: bool
  json :: "js_error + Json"

text \<open>
  \<^verbatim>\<open>fetch\<close> is a parameter: it answers a request on the current state, rejecting
  (\<open>Inl\<close>) on a network failure.
\<close>

type_synonym 's fetch = "Request \<Rightarrow> (Response, 's) promise"


section \<open>services/githubService.ts\<close>

definition GITHUB_API_BASE :: jsstring where
  "GITHUB_API_BASE = lit ''https://api.github.com''"

definition verify_request :: "jsstring \<Rightarrow> Request" where
  "verify_request token =
     \<lparr>http_method = GET, url = GITHUB_API_BASE @ lit ''/user'',
      headers = [(lit ''Authorization'', lit ''token '' @ token),
                 (lit ''Accept'', lit ''application/vnd.github.v3+json'')],
      body = None\<rparr>"

definition verifyGithubToken :: "'s fetch \<Rightarrow> jsstring \<Rightarrow> (jsstring, 's) promise" where
  "verifyGithubToken fetch token s =
     (case fetch (verify_request token) s of
        (Inl e, s') \<Rightarrow> (Inl e, s')
      | (Inr response, s') \<Rightarrow>
          if \<not> ok response then (Inl (Error (lit ''Invalid GitHub Token'')), s')
          else
            (case json response of
               Inl e \<Rightarrow> (Inl e, s')
             | Inr data \<Rightarrow> (Inr (login data), s')))"

definition create_request :: "jsstring \<Rightarrow> jsstring \<Rightarrow> jsstring \<Rightarrow> Request" where
  "create_request token name description =
     \<lparr>http_method = POST, url = GITHUB_API_BASE @ lit ''/user/repos'',
      headers = [(lit ''Authorization'', lit ''token '' @ token),
                 (lit ''Accept'', lit ''application/vnd.github.v3+json''),
                 (lit ''Content-Type'', lit ''application/json'')],
      body = Some (RepoBody name description False True)\<rparr>"

text \<open>
  \<^verbatim>\<open>err.message && err.message.includes("name already exists")\<close>: an absent or empty
  message is falsy. In the error's template string an absent message prints as
  \<^verbatim>\<open>undefined\<close>.
\<close>

definition name_exists :: "Json \<Rightarrow> bool" where
  "name_exists err =
     (case err_message err of
        None \<Rightarrow> False
      | Some m \<Rightarrow> m \<noteq> [] \<and> includes_js m (lit ''name already exists''))"

definition message_text :: "Json \<Rightarrow> jsstring" where
  "message_text err = (case err_message err of None \<Rightarrow> lit ''undefined'' | Some m \<Rightarrow> m)"

definition createRepository ::
  "'s fetch \<Rightarrow> jsstring \<Rightarrow> jsstring \<Rightarrow> jsstring \<Rightarrow> (Repo, 's) promise" where
  "createRepository fetch token name description s =
     (case fetch (create_request token name description) s of
        (Inl e, s1) \<Rightarrow> (Inl e, s1)
      | (Inr response, s1) \<Rightarrow>
          if \<not> ok response then
            (case json response of
               Inl e \<Rightarrow> (Inl e, s1)
             | Inr err \<Rightarrow>
                 if name_exists err then
                   (case verifyGithubToken fetch token s1 of
                      (Inl e, s2) \<Rightarrow> (Inl e, s2)
                    | (Inr user, s2) \<Rightarrow>
                        (Inr \<lparr>repo_name = name,
                              html_url = Value (lit ''https://github.com/'' @ user @ lit ''/'' @ name)\<rparr>,
                         s2))
                 else (Inl (Error (lit ''GitHub Create Repo Error: '' @ message_text err)), s1))
          else
            (case json response of
               Inl e \<Rightarrow> (Inl e, s1)
             | Inr created \<Rightarrow> (Inr (repo created), s1)))"

definition contents_url :: "jsstring \<Rightarrow> jsstring \<Rightarrow> jsstring \<Rightarrow> jsstring" where
  "contents_url username repoName p =
     GITHUB_API_BASE @ lit ''/repos/'' @ username @ lit ''/'' @ repoName @ lit ''/contents/'' @ p"

record FileNode =
  path :: jsstring
  content :: jsstring

definition check_request :: "jsstring \<Rightarrow> jsstring \<Rightarrow> jsstring \<Rightarrow> FileNode \<Rightarrow> Request" where
  "check_request token username repoName file =
     \<lparr>http_method = GET, url = contents_url username repoName (path file),
      headers = [(lit ''Authorization'', lit ''token '' @ token)],
      body = None\<rparr>"

definition upload_request ::
  "jsstring \<Rightarrow> jsstring \<Rightarrow> jsstring \<Rightarrow> FileNode \<Rightarrow> jsstring \<Rightarrow> jsstring option \<Rightarrow> Request" where
  "upload_request token username repoName file contentEncoded sha_opt =
     \<lparr>http_method = PUT, url = contents_url username repoName (path file),
      headers = [(lit ''Authorization'', lit ''token '' @ token),
                 (lit ''Accept'', lit ''application/vnd.github.v3+json''),
                 (lit ''Content-Type'', lit ''application/json'')],
      body = Some (ContentBody (lit ''Add '' @ path file @ lit '' via AutoDeploy Agent'')
                     contentEncoded sha_opt)\<rparr>"

text \<open>
  The existence lookup sits in a \<^verbatim>\<open>try { ... } catch (e) {}\<close>: a rejected lookup, an
  unsuccessful one and one whose body does not parse all leave \<^verbatim>\<open>sha\<close> undefined.
\<close>

definition sha_of :: "js_error + Response \<Rightarrow> jsstring option" where
  "sha_of checkRes =
     (case checkRes of
        Inl e \<Rightarrow> None
      | Inr r \<Rightarrow>
          if ok r then (case json r of Inl e \<Rightarrow> None | Inr checkData \<Rightarrow> sha checkData)
          else None)"

definition progress_message :: "FileNode \<Rightarrow> jsstring" where
  "progress_message file = lit ''Pushing '' @ path file @ lit ''...''"

text \<open>
  \<open>encode\<close> stands for \<^verbatim>\<open>btoa(unescape(encodeURIComponent(content)))\<close>, a composition
  of platform functions; \<^verbatim>\<open>encodeURIComponent\<close> throws on a lone surrogate, which is
  the \<open>Inl\<close> branch.
\<close>

fun pushFilesToRepo ::
  "'s fetch \<Rightarrow> (jsstring \<Rightarrow> js_error + jsstring) \<Rightarrow> jsstring \<Rightarrow> jsstring \<Rightarrow> jsstring \<Rightarrow>
   FileNode list \<Rightarrow> (jsstring \<Rightarrow> 's \<Rightarrow> 's) \<Rightarrow> (unit, 's) promise" where
  "pushFilesToRepo fetch encode token username repoName [] onProgress s = (Inr (), s)"
| "pushFilesToRepo fetch encode token username repoName (file # rest) onProgress s =
     (let s1 = onProgress (progress_message file) s;
          (checkRes, s2) = fetch (check_request token username repoName file) s1
      in case encode (content file) of
           Inl e \<Rightarrow> (Inl e, s2)
         | Inr contentEncoded \<Rightarrow>
             (case fetch (upload_request token username repoName file contentEncoded
                            (sha_of checkRes)) s2 of
                (Inl e, s3) \<Rightarrow> (Inl e, s3)
              | (Inr res, s3) \<Rightarrow>
                  if \<not> ok res then (Inl (Error (lit ''Failed to upload '' @ path file)), s3)
                  else pushFilesToRepo fetch encode token username repoName rest onProgress s3))"


text \<open>
  Observing a run: every request and every progress call is appended to a history kept
  beside the state, so that the order of the calls can be stated.
\<close>

datatype Observation = Called jsstring | Fetched Request

definition observed_fetch :: "'s fetch \<Rightarrow> ('s \<times> Observation list) fetch" where
  "observed_fetch fetch req = (\<lambda>(s, h).
     case fetch req s of (res, s') \<Rightarrow> (res, (s', h @ [Fetched req])))"

definition observed_progress ::
  "(jsstring \<Rightarrow> 's \<Rightarrow> 's) \<Rightarrow> jsstring \<Rightarrow> 's \<times> Observation list \<Rightarrow> 's \<times> Observation list" where
  "observed_progress onProgress msg = (\<lambda>(s, h). (onProgress msg s, h @ [Called msg]))"

text \<open>What is seen of one file that reaches its upload: progress, lookup, upload.\<close>

datatype Seen = Progress jsstring | Lookup jsstring | Upload jsstring

fun seen :: "Observation \<Rightarrow> Seen option" where
  "seen (Called msg) = Some (Progress msg)"
| "seen (Fetched req) =
     (case http_method req of
        GET \<Rightarrow> Some (Lookup (url req))
      | PUT \<Rightarrow> Some (Upload (url req))
      | POST \<Rightarrow> None)"

definition file_steps :: "jsstring \<Rightarrow> jsstring \<Rightarrow> FileNode \<Rightarrow> Seen option list" where
  "file_steps username repoName file =
     [Some (Progress (progress_message file)),
      Some (Lookup (contents_url username repoName (path file))),
      Some (Upload (contents_url username repoName (path file)))]"


section \<open>App.tsx\<close>

text \<open>
  Modelled from the spec: the declarations of \<^verbatim>\<open>types.ts\<close> (Step, AppConfig, LogEntry,
  GeneratedProject) are not among the sources; section 3 of the specification and the
  fields that the component reads give them.
\<close>

datatype Step = CONFIG | PROMPT | GENERATING | REVIEW | DEPLOYING | SUCCESS

record AppConfig =
  githubToken :: jsstring
  vercelToken :: jsstring
  githubUsername :: jsstring
  geminiKey :: jsstring

datatype LogType = info | success | warning | error

record LogEntry =
  id :: jsstring
  timestamp :: int
  log_message :: jsstring
  log_type :: LogType

record GeneratedProject =
  name :: jsstring
  description :: jsstring
  files :: "FileNode list"

text \<open>
  What the component takes from outside. The generation and hosting services are
  imported from modules that are not among the sources, so they are parameters, as is the
  platform: \<^verbatim>\<open>fetch\<close>, the content encoding, \<^verbatim>\<open>Math.random().toString(36)\<close> and
  \<^verbatim>\<open>new Date()\<close>. The log only grows, so the position of an entry identifies the call
  that made it, and the last two are functions of that position.
\<close>

record 'w Env =
  window_fetch :: "'w fetch"
  btoa_utf8 :: "jsstring \<Rightarrow> js_error + jsstring"
  generateProjectCode :: "jsstring \<Rightarrow> jsstring \<Rightarrow> jsstring \<Rightarrow> (GeneratedProject, 'w) promise"
  createVercelProject :: "jsstring \<Rightarrow> jsstring \<Rightarrow> jsstring \<Rightarrow> (unit, 'w) promise"
  random_id :: "nat \<Rightarrow> jsstring"
  new_Date :: "nat \<Rightarrow> int"

text \<open>
  The component's \<^verbatim>\<open>useState\<close> cells, the browser's \<^verbatim>\<open>localStorage\<close> (the stored
  JSON text is kept as the configuration it serialises) and the world outside.
\<close>

record 'w State =
  step :: Step
  config :: AppConfig
  prompt :: jsstring
  logs :: "LogEntry list"
  project :: "GeneratedProject option"
  deploymentUrl :: "jsstring option"
  repoUrl :: "jsstring option"
  isLoading :: bool
  localStorage :: "jsstring \<rightharpoonup> AppConfig"
  world :: "'w"

definition initialState :: "(jsstring \<rightharpoonup> AppConfig) \<Rightarrow> 'w \<Rightarrow> 'w State" where
  "initialState store w =
     \<lparr>step = CONFIG,
      config = \<lparr>githubToken = [], vercelToken = [], githubUsername = [], geminiKey = []\<rparr>,
      prompt = [], logs = [], project = None, deploymentUrl = None, repoUrl = None,
      isLoading = False, localStorage = store, world = w\<rparr>"

text \<open>The \<^verbatim>\<open>useEffect\<close> that runs once after the first render.\<close>

definition mount :: "'w State \<Rightarrow> 'w State" where
  "mount s =
     (case localStorage s (lit ''autodeploy_config'') of
        None \<Rightarrow> s
      | Some saved \<Rightarrow> s\<lparr>config := saved, step := PROMPT\<rparr>)"

definition addLog :: "'w Env \<Rightarrow> jsstring \<Rightarrow> LogType \<Rightarrow> 'w State \<Rightarrow> 'w State" where
  "addLog env msg ty s =
     s\<lparr>logs := logs s @ [\<lparr>id = random_id env (length (logs s)),
                           timestamp = new_Date env (length (logs s)),
                           log_message = msg, log_type = ty\<rparr>]\<rparr>"

text \<open>The services called from the component act on the world inside its state.\<close>

definition fetch_in :: "'w Env \<Rightarrow> 'w State fetch" where
  "fetch_in env req s =
     (case window_fetch env req (world s) of (res, w) \<Rightarrow> (res, s\<lparr>world := w\<rparr>))"

definition handleSaveConfig :: "'w Env \<Rightarrow> 'w State \<Rightarrow> 'w State" where
  "handleSaveConfig env s =
     (case verifyGithubToken (fetch_in env) (githubToken (config s)) (s\<lparr>isLoading := True\<rparr>) of
        (Inr username, s1) \<Rightarrow>
          (let newConfig = (config s)\<lparr>githubUsername := username\<rparr>;
               s2 = s1\<lparr>config := newConfig\<rparr>;
               s3 = s2\<lparr>localStorage := (localStorage s2)(lit ''autodeploy_config'' \<mapsto> newConfig)\<rparr>;
               s4 = addLog env (lit ''Authenticated as GitHub user: '' @ username) success s3;
               s5 = s4\<lparr>step := PROMPT\<rparr>
           in s5\<lparr>isLoading := False\<rparr>)
      | (Inl e, s1) \<Rightarrow> (addLog env (message e) error s1)\<lparr>isLoading := False\<rparr>)"

text \<open>Code unit 34 is the double quote of the template string.\<close>

definition handleGenerate :: "'w Env \<Rightarrow> 'w State \<Rightarrow> 'w State" where
  "handleGenerate env s =
     (if trim (prompt s) = [] then s
      else
        (let s1 = s\<lparr>step := GENERATING\<rparr>;
             s2 = s1\<lparr>isLoading := True\<rparr>;
             s3 = addLog env (lit ''Generating project for: '' @ [34] @ prompt s @ [34] @ lit ''...'')
                    info s2
         in case generateProjectCode env (prompt s) (lit ''generate'') (geminiKey (config s))
                   (world s3) of
              (Inr generated, w) \<Rightarrow>
                (let s4 = s3\<lparr>world := w\<rparr>;
                     s5 = s4\<lparr>project := Some generated\<rparr>;
                     s6 = addLog env (lit ''Generated project: '' @ name generated) success s5;
                     s7 = addLog env (lit ''Created '' @ nat_to_string (length (files generated))
                                        @ lit '' files.'') info s6;
                     s8 = s7\<lparr>step := REVIEW\<rparr>
                 in s8\<lparr>isLoading := False\<rparr>)
            | (Inl e, w) \<Rightarrow>
                (let s4 = s3\<lparr>world := w\<rparr>;
                     s5 = addLog env (message e) error s4;
                     s6 = s5\<lparr>step := PROMPT\<rparr>
                 in s6\<lparr>isLoading := False\<rparr>)))"

text \<open>
  The \<^verbatim>\<open>try\<close> block of \<^verbatim>\<open>handleDeploy\<close>, in the three steps that the source
  numbers; \<open>cfg\<close> and \<open>p\<close> are the configuration and the project that the handler's
  closure holds. Step 1 creates the repository.
\<close>

definition create_repo_step ::
  "'w Env \<Rightarrow> AppConfig \<Rightarrow> GeneratedProject \<Rightarrow> (unit, 'w State) promise" where
  "create_repo_step env cfg p s =
     (let s1 = addLog env (lit ''Creating GitHub repository...'') info s
      in case createRepository (fetch_in env) (githubToken cfg) (name p) (description p) s1 of
           (Inl e, s2) \<Rightarrow> (Inl e, s2)
         | (Inr created, s2) \<Rightarrow>
             (let s3 = s2\<lparr>repoUrl := stored (html_url created)\<rparr>;
                  s4 = addLog env (lit ''Repository created: '' @ template (html_url created))
                         success s3
              in (Inr (), s4)))"

text \<open>Step 2 pushes the files; the progress callback is \<^verbatim>\<open>(msg) => addLog(msg, 'info')\<close>.\<close>

definition push_files_step ::
  "'w Env \<Rightarrow> AppConfig \<Rightarrow> GeneratedProject \<Rightarrow> (unit, 'w State) promise" where
  "push_files_step env cfg p s =
     (case pushFilesToRepo (fetch_in env) (btoa_utf8 env) (githubToken cfg) (githubUsername cfg)
             (name p) (files p) (\<lambda>msg. addLog env msg info) s of
        (Inl e, s1) \<Rightarrow> (Inl e, s1)
      | (Inr u, s1) \<Rightarrow> (Inr (), addLog env (lit ''All files pushed to GitHub.'') success s1))"

text \<open>Step 3 registers the project with the hosting service when a token is given.\<close>

definition vercel_step ::
  "'w Env \<Rightarrow> AppConfig \<Rightarrow> GeneratedProject \<Rightarrow> (unit, 'w State) promise" where
  "vercel_step env cfg p s =
     (if vercelToken cfg \<noteq> [] then
        (let s1 = addLog env (lit ''Triggering Vercel deployment...'') info s
         in case createVercelProject env (vercelToken cfg) (name p)
                   (githubUsername cfg @ lit ''/'' @ name p) (world s1) of
              (Inl e, w) \<Rightarrow> (Inl e, s1\<lparr>world := w\<rparr>)
            | (Inr vercelProject, w) \<Rightarrow>
                (let s2 = addLog env (lit ''Vercel project created/linked.'') success
                            (s1\<lparr>world := w\<rparr>);
                     s3 = s2\<lparr>deploymentUrl :=
                               Some (lit ''https://'' @ name p @ lit ''.vercel.app'')\<rparr>;
                     s4 = addLog env
                            (lit ''Deployment queued. Visit https://vercel.com/dashboard to see progress.'')
                            warning s3
                 in (Inr (), s4)))
      else
        (Inr (), addLog env (lit ''Skipping Vercel deployment (no token provided).'') warning s))"

definition deploy_try ::
  "'w Env \<Rightarrow> AppConfig \<Rightarrow> GeneratedProject \<Rightarrow> (unit, 'w State) promise" where
  "deploy_try env cfg p s =
     (case create_repo_step env cfg p s of
        (Inl e, s1) \<Rightarrow> (Inl e, s1)
      | (Inr u, s1) \<Rightarrow>
          (case push_files_step env cfg p s1 of
             (Inl e, s2) \<Rightarrow> (Inl e, s2)
           | (Inr u, s2) \<Rightarrow>
               (case vercel_step env cfg p s2 of
                  (Inl e, s3) \<Rightarrow> (Inl e, s3)
                | (Inr u, s3) \<Rightarrow> (Inr (), s3\<lparr>step := SUCCESS\<rparr>))))"

definition handleDeploy :: "'w Env \<Rightarrow> 'w State \<Rightarrow> 'w State" where
  "handleDeploy env s =
     (case project s of
        None \<Rightarrow> s
      | Some p \<Rightarrow>
          if githubUsername (config s) = [] then s
          else
            (case deploy_try env (config s) p (s\<lparr>step := DEPLOYING, isLoading := True\<rparr>) of
               (Inr u, s1) \<Rightarrow> s1\<lparr>isLoading := False\<rparr>
             | (Inl e, s1) \<Rightarrow>
                 (let s2 = addLog env (message e) error s1;
                      s3 = s2\<lparr>step := REVIEW\<rparr>
                  in s3\<lparr>isLoading := False\<rparr>)))"

text \<open>
  The user's actions: the buttons and inputs of the rendered page. \<open>rendered\<close> follows
  the JSX: which control is on the page at a stage, and whether a button is disabled.
\<close>

datatype Action =
    SettingsClick
  | GithubTokenChange jsstring
  | VercelTokenChange jsstring
  | GeminiKeyChange jsstring
  | SaveClick
  | PromptChange jsstring
  | GenerateClick
  | ResetClick
  | DeployClick

fun rendered :: "Action \<Rightarrow> 'w State \<Rightarrow> bool" where
  "rendered SettingsClick s = True"
| "rendered (GithubTokenChange v) s = (step s = CONFIG)"
| "rendered (VercelTokenChange v) s = (step s = CONFIG)"
| "rendered (GeminiKeyChange v) s = (step s = CONFIG)"
| "rendered SaveClick s =
     (step s = CONFIG \<and> \<not> (isLoading s \<or> githubToken (config s) = []))"
| "rendered (PromptChange v) s = (step s = PROMPT \<or> step s = GENERATING)"
| "rendered GenerateClick s =
     ((step s = PROMPT \<or> step s = GENERATING) \<and> \<not> (isLoading s \<or> prompt s = []))"
| "rendered ResetClick s =
     ((step s = REVIEW \<or> step s = DEPLOYING \<or> step s = SUCCESS) \<and> project s \<noteq> None)"
| "rendered DeployClick s =
     ((step s = REVIEW \<or> step s = DEPLOYING \<or> step s = SUCCESS) \<and> project s \<noteq> None
      \<and> step s = REVIEW \<and> \<not> isLoading s)"

fun handler :: "'w Env \<Rightarrow> Action \<Rightarrow> 'w State \<Rightarrow> 'w State" where
  "handler env SettingsClick s = s\<lparr>step := CONFIG\<rparr>"
| "handler env (GithubTokenChange v) s = s\<lparr>config := (config s)\<lparr>githubToken := v\<rparr>\<rparr>"
| "handler env (VercelTokenChange v) s = s\<lparr>config := (config s)\<lparr>vercelToken := v\<rparr>\<rparr>"
| "handler env (GeminiKeyChange v) s = s\<lparr>config := (config s)\<lparr>geminiKey := v\<rparr>\<rparr>"
| "handler env SaveClick s = handleSaveConfig env s"
| "handler env (PromptChange v) s = s\<lparr>prompt := v\<rparr>"
| "handler env GenerateClick s = handleGenerate env s"
| "handler env ResetClick s = s\<lparr>step := PROMPT\<rparr>"
| "handler env DeployClick s = handleDeploy env s"

definition dispatch :: "'w Env \<Rightarrow> Action \<Rightarrow> 'w State \<Rightarrow> 'w State" where
  "dispatch env a s = (if rendered a s then handler env a s else s)"

text \<open>
  A session: the page is mounted on some stored configuration and the user's actions
  are handled one after the other, each handler running to its end.
\<close>

definition session :: "'w Env \<Rightarrow> (jsstring \<rightharpoonup> AppConfig) \<Rightarrow> 'w \<Rightarrow> Action list \<Rightarrow> 'w State" where
  "session env store w actions =
     foldl (\<lambda>s a. dispatch env a s) (mount (initialState store w)) actions"

text \<open>The narration of a log: its messages and severities, in order.\<close>

definition narration :: "LogEntry list \<Rightarrow> (jsstring \<times> LogType) list" where
  "narration entries = map (\<lambda>e. (log_message e, log_type e)) entries"


text \<open>
  What a failed deployment leaves, said of the state \<open>s\<close> before the handler ran, the
  state \<open>s1\<close> in which the error \<open>e\<close> was thrown and the state \<open>final\<close> that the handler
  returns: the stage is Review, the entries logged before are all there, the error is
  the one entry added to what had been logged when it was thrown, and the repository
  URL, the deployment URL, the project and the outside world are as the throw left them.
\<close>

definition failed_deploy :: "'w State \<Rightarrow> 'w State \<Rightarrow> js_error \<Rightarrow> 'w State \<Rightarrow> bool" where
  "failed_deploy s s1 e final \<longleftrightarrow>
     step final = REVIEW \<and> isLoading final = False \<and>
     take (length (logs s)) (logs final) = logs s \<and>
     narration (logs final) = narration (logs s1) @ [(message e, error)] \<and>
     repoUrl final = repoUrl s1 \<and> deploymentUrl final = deploymentUrl s1 \<and>
     project final = project s \<and> world final = world s1"


definition mentions_skip :: "jsstring \<times> LogType \<Rightarrow> bool" where
  "mentions_skip entry = includes_js (fst entry) (lit ''Skipping Vercel deployment'')"


section \<open>Frames\<close>

text \<open>
  Two relations between a state and a later one, used to say what a call leaves alone:
  everything but the outside world, and everything but the outside world and a log that
  has only grown.
\<close>

definition only_world :: "'w State \<Rightarrow> 'w State \<Rightarrow> bool" where
  "only_world s s' \<longleftrightarrow>
     step s' = step s \<and> config s' = config s \<and> prompt s' = prompt s \<and> logs s' = logs s \<and>
     project s' = project s \<and> deploymentUrl s' = deploymentUrl s \<and> repoUrl s' = repoUrl s \<and>
     isLoading s' = isLoading s \<and> localStorage s' = localStorage s"

definition only_world_and_logs :: "'w State \<Rightarrow> 'w State \<Rightarrow> bool" where
  "only_world_and_logs s s' \<longleftrightarrow>
     step s' = step s \<and> config s' = config s \<and> prompt s' = prompt s \<and>
     (\<exists>entries. logs s' = logs s @ entries) \<and>
     project s' = project s \<and> deploymentUrl s' = deploymentUrl s \<and> repoUrl s' = repoUrl s \<and>
     isLoading s' = isLoading s \<and> localStorage s' = localStorage s"


section \<open>Example environments\<close>

text \<open>
  Concrete services and files on which the theorems below are evaluated. The world of
  these services is the number of requests answered so far.
\<close>

definition example_json :: Json where
  "example_json =
     \<lparr>login = lit ''octocat'', err_message = None, sha = None,
      repo = \<lparr>repo_name = lit ''demo'', html_url = Value (lit ''https://github.com/octocat/demo'')\<rparr>\<rparr>"


definition ignore_progress :: "jsstring \<Rightarrow> nat \<Rightarrow> nat" where
  "ignore_progress msg n = n"

definition file_a :: FileNode where "file_a = \<lparr>path = lit ''a.txt'', content = lit ''A''\<rparr>"
definition file_b :: FileNode where "file_b = \<lparr>path = lit ''b.txt'', content = lit ''B''\<rparr>"
definition file_c :: FileNode where "file_c = \<lparr>path = lit ''c.txt'', content = lit ''C''\<rparr>"

definition github_refusing :: "jsstring \<Rightarrow> nat fetch" where
  "github_refusing p req n =
     (Inr \<lparr>ok = (url req \<noteq> contents_url (lit ''octocat'') (lit ''demo'') p), json = Inr example_json\<rparr>,
      Suc n)"

definition github_down :: "jsstring option \<Rightarrow> nat fetch" where
  "github_down msg req n = (Inr \<lparr>ok = False, json = Inr (example_json\<lparr>err_message := msg\<rparr>)\<rparr>, Suc n)"

definition taken :: jsstring where
  "taken = lit ''Repository creation failed: name already exists on this account''"

text \<open>The project of the specification's scenario, and one whose file is oddly named.\<close>

definition hello_world :: GeneratedProject where
  "hello_world =
     \<lparr>name = lit ''hello-world'', description = lit ''A hello world page'',
      files = [\<lparr>path = lit ''index.html'', content = lit ''<html></html>''\<rparr>]\<rparr>"

definition release_notes :: GeneratedProject where
  "release_notes =
     \<lparr>name = lit ''notes'', description = lit ''Release notes'',
      files = [\<lparr>path = lit ''Skipping Vercel deployment.md'', content = lit ''why''\<rparr>]\<rparr>"

text \<open>
  Services: one that accepts every request and answers a creation with the repository
  asked for, and one that refuses uploads.
\<close>

definition created_json :: "Body option \<Rightarrow> Json" where
  "created_json b =
     (case b of
        Some (RepoBody nm descr priv init) \<Rightarrow>
          example_json\<lparr>repo := \<lparr>repo_name = nm, html_url = Value (lit ''https://github.com/octocat/'' @ nm)\<rparr>\<rparr>
      | _ \<Rightarrow> example_json)"

definition github_up :: "nat fetch" where
  "github_up req n = (Inr \<lparr>ok = True, json = Inr (created_json (body req))\<rparr>, Suc n)"


definition github_readonly :: "nat fetch" where
  "github_readonly req n =
     (Inr \<lparr>ok = (http_method req \<noteq> PUT), json = Inr (created_json (body req))\<rparr>, Suc n)"

text \<open>
  An environment around a service: the generation and the hosting registration have the
  given outcome, and each counts as one more request.
\<close>

definition browser ::
  "nat fetch \<Rightarrow> js_error + GeneratedProject \<Rightarrow> js_error + unit \<Rightarrow> nat Env" where
  "browser f generated registered =
     \<lparr>window_fetch = f, btoa_utf8 = Inr,
      generateProjectCode = (\<lambda>p mode key w. (generated, Suc w)),
      createVercelProject = (\<lambda>token nm ref w. (registered, Suc w)),
      random_id = (\<lambda>n. lit ''id''), new_Date = int\<rparr>"

text \<open>States of the page at its stages.\<close>

definition configuring :: "nat State" where
  "configuring = (initialState Map.empty 0)\<lparr>config :=
     \<lparr>githubToken = lit ''t'', vercelToken = [], githubUsername = [], geminiKey = []\<rparr>\<rparr>"

definition asking :: "nat State" where
  "asking =
     \<lparr>step = PROMPT,
      config = \<lparr>githubToken = lit ''t'', vercelToken = [], githubUsername = lit ''octocat'',
                geminiKey = []\<rparr>,
      prompt = lit ''a hello world page'', logs = [], project = None,
      deploymentUrl = None, repoUrl = None,
      isLoading = False, localStorage = Map.empty, world = 0\<rparr>"

definition reviewing :: "nat State" where
  "reviewing =
     \<lparr>step = REVIEW,
      config = \<lparr>githubToken = lit ''t'', vercelToken = [], githubUsername = lit ''octocat'',
                geminiKey = []\<rparr>,
      prompt = lit ''a hello world page'', logs = [], project = Some hello_world,
      deploymentUrl = None, repoUrl = None,
      isLoading = False, localStorage = Map.empty, world = 0\<rparr>"

definition with_hosting :: "nat State \<Rightarrow> nat State" where
  "with_hosting s = s\<lparr>config := (config s)\<lparr>vercelToken := lit ''v''\<rparr>\<rparr>"

definition deployed_once :: "nat State" where
  "deployed_once =
     \<lparr>step = SUCCESS,
      config = \<lparr>githubToken = lit ''t'', vercelToken = lit ''v'', githubUsername = lit ''octocat'',
                geminiKey = []\<rparr>,
      prompt = lit ''a clock'', logs = [], project = Some hello_world,
      deploymentUrl = Some (lit ''https://hello-world.vercel.app''),
      repoUrl = Some (lit ''https://github.com/octocat/hello-world''),
      isLoading = False, localStorage = Map.empty, world = 0\<rparr>"

definition asking_again :: "nat State" where
  "asking_again = deployed_once\<lparr>step := PROMPT\<rparr>"


definition second_visit :: "Action list" where
  "second_visit =
     [GithubTokenChange (lit ''t''), VercelTokenChange (lit ''v''), SaveClick,
      PromptChange (lit ''release notes''), GenerateClick, DeployClick,
      SettingsClick, VercelTokenChange [], SaveClick, GenerateClick]"

definition return_visit :: "nat State" where
  "return_visit = session (browser github_up (Inr release_notes) (Inr ())) Map.empty 0 second_visit"


section \<open>Evaluating literals\<close>

lemma lit_Cons: "lit (c # cs) = of_nat (of_char c) # lit cs"
  by (simp add: lit_def)

lemma lit_Nil: "lit [] = []"
  by (simp add: lit_def)


section \<open>pushFilesToRepo\<close>

lemma pushFilesToRepo_append:
  "pushFilesToRepo fetch encode token username repoName (xs @ ys) onProgress s =
     (case pushFilesToRepo fetch encode token username repoName xs onProgress s of
        (Inl e, s') \<Rightarrow> (Inl e, s')
      | (Inr u, s') \<Rightarrow> pushFilesToRepo fetch encode token username repoName ys onProgress s')"
  by (induction xs arbitrary: s) (simp_all add: Let_def split: prod.splits sum.splits)

lemma observed_run:
  "pushFilesToRepo (observed_fetch fetch) encode token username repoName xs
       (observed_progress onProgress) (s, h) = (res, (s', h')) \<Longrightarrow>
   pushFilesToRepo fetch encode token username repoName xs onProgress s = (res, s')"
proof (induction xs arbitrary: s h)
  case Nil
  then show ?case by simp
next
  case (Cons x xs)
  then show ?case
    by (auto simp: Let_def observed_fetch_def observed_progress_def split: prod.splits sum.splits if_splits)
qed

lemma seen_check [simp]:
  "seen (Fetched (check_request token username repoName file)) =
     Some (Lookup (contents_url username repoName (path file)))"
  by (simp add: check_request_def)

lemma seen_upload [simp]:
  "seen (Fetched (upload_request token username repoName file c sh)) =
     Some (Upload (contents_url username repoName (path file)))"
  by (simp add: upload_request_def)

lemma observed_success:
  "pushFilesToRepo (observed_fetch fetch) encode token username repoName xs
       (observed_progress onProgress) (s, h) = (Inr u, (s', h')) \<Longrightarrow>
   map seen h' = map seen h @ concat (map (file_steps username repoName) xs)"
proof (induction xs arbitrary: s h)
  case Nil
  then show ?case by simp
next
  case (Cons x xs)
  then show ?case
    by (auto simp: Let_def observed_fetch_def observed_progress_def file_steps_def
        simp del: seen.simps(2) split: prod.splits sum.splits if_splits)
qed

lemma observed_same:
  assumes "pushFilesToRepo fetch encode token username repoName xs onProgress s = (res, s')"
  shows "fst (pushFilesToRepo (observed_fetch fetch) encode token username repoName xs
            (observed_progress onProgress) (s, h)) = res
       \<and> fst (snd (pushFilesToRepo (observed_fetch fetch) encode token username repoName xs
            (observed_progress onProgress) (s, h))) = s'"
proof -
  obtain r t k where run: "pushFilesToRepo (observed_fetch fetch) encode token username repoName xs
       (observed_progress onProgress) (s, h) = (r, (t, k))"
    using prod_cases3 by blast
  from observed_run [OF run] assms have "r = res" "t = s'" by simp_all
  with run show ?thesis by simp
qed

lemma observed_history:
  assumes "pushFilesToRepo fetch encode token username repoName xs onProgress s = (Inr u, s')"
  shows "map seen (snd (snd (pushFilesToRepo (observed_fetch fetch) encode token username repoName xs
            (observed_progress onProgress) (s, h)))) =
         map seen h @ concat (map (file_steps username repoName) xs)"
proof -
  obtain r t k where run: "pushFilesToRepo (observed_fetch fetch) encode token username repoName xs
       (observed_progress onProgress) (s, h) = (r, (t, k))"
    using prod_cases3 by blast
  from observed_run [OF run] assms have "r = Inr u" by simp
  with run observed_success [of fetch encode token username repoName xs onProgress s h u t k]
  show ?thesis by simp
qed

text \<open>
  Claim C1, with the message that the code gives. The files are handled in the order
  given: a run of \<open>pushFilesToRepo\<close> that succeeds shows, for each file in turn, one
  progress call, then the lookup, then the upload, and nothing else. When the files in
  \<open>before\<close> have been pushed and the upload of \<open>file\<close> is answered with a response that
  is not ok, the call throws \<open>Failed to upload <path>\<close>; the state it leaves is the one
  right after that upload (nothing is undone), and what was seen is the steps of
  \<open>before\<close> and of \<open>file\<close>: no progress call, lookup or upload for a file of \<open>after\<close>.
\<close>

theorem pushFilesToRepo_in_order_until_failed_upload:
  "(pushFilesToRepo fetch encode token username repoName allFiles onProgress s = (Inr (), sN) \<longrightarrow>
      map seen (snd (snd (pushFilesToRepo (observed_fetch fetch) encode token username repoName
         allFiles (observed_progress onProgress) (s, [])))) =
      concat (map (file_steps username repoName) allFiles))
   \<and>
   (pushFilesToRepo fetch encode token username repoName before onProgress s = (Inr (), s1) \<and>
    fetch (check_request token username repoName file) (onProgress (progress_message file) s1)
      = (checkRes, s2) \<and>
    encode (content file) = Inr contentEncoded \<and>
    fetch (upload_request token username repoName file contentEncoded (sha_of checkRes)) s2
      = (Inr res, s3) \<and>
    \<not> ok res \<longrightarrow>
      pushFilesToRepo fetch encode token username repoName (before @ file # after) onProgress s =
        (Inl (Error (lit ''Failed to upload '' @ path file)), s3) \<and>
      map seen (snd (snd (pushFilesToRepo (observed_fetch fetch) encode token username repoName
         (before @ file # after) (observed_progress onProgress) (s, [])))) =
      concat (map (file_steps username repoName) (before @ [file])))"
proof (intro conjI impI)
  assume "pushFilesToRepo fetch encode token username repoName allFiles onProgress s = (Inr (), sN)"
  from observed_history [OF this, of "[]"]
  show "map seen (snd (snd (pushFilesToRepo (observed_fetch fetch) encode token username repoName
         allFiles (observed_progress onProgress) (s, [])))) =
      concat (map (file_steps username repoName) allFiles)"
    by simp
next
  assume h: "pushFilesToRepo fetch encode token username repoName before onProgress s = (Inr (), s1) \<and>
    fetch (check_request token username repoName file) (onProgress (progress_message file) s1)
      = (checkRes, s2) \<and>
    encode (content file) = Inr contentEncoded \<and>
    fetch (upload_request token username repoName file contentEncoded (sha_of checkRes)) s2
      = (Inr res, s3) \<and>
    \<not> ok res"
  then have pre: "pushFilesToRepo fetch encode token username repoName before onProgress s = (Inr (), s1)"
    by simp
  from h have c1: "fetch (check_request token username repoName file)
        (onProgress (progress_message file) s1) = (checkRes, s2)"
    and c2: "encode (content file) = Inr contentEncoded"
    and c3: "fetch (upload_request token username repoName file contentEncoded (sha_of checkRes)) s2
        = (Inr res, s3)"
    and c4: "\<not> ok res"
    by simp_all
  have last: "pushFilesToRepo fetch encode token username repoName (file # after) onProgress s1 =
           (Inl (Error (lit ''Failed to upload '' @ path file)), s3)"
    using c1 c2 c3 c4 by (simp add: Let_def)
  show "pushFilesToRepo fetch encode token username repoName (before @ file # after) onProgress s =
        (Inl (Error (lit ''Failed to upload '' @ path file)), s3)"
    by (simp add: pushFilesToRepo_append pre last del: pushFilesToRepo.simps)
  obtain k where obs: "pushFilesToRepo (observed_fetch fetch) encode token username repoName before
            (observed_progress onProgress) (s, []) = (Inr (), (s1, k))"
    using observed_same [OF pre, of "[]"]
    by (metis prod.collapse)
  have k: "map seen k = concat (map (file_steps username repoName) before)"
    using observed_history [OF pre, of "[]"] obs by simp
  have "map seen (snd (snd (pushFilesToRepo (observed_fetch fetch) encode token username repoName
            (file # after) (observed_progress onProgress) (s1, k)))) =
         map seen k @ file_steps username repoName file"
    using c1 c2 c3 c4
    by (simp add: Let_def observed_fetch_def observed_progress_def file_steps_def
        del: seen.simps(2))
  then show "map seen (snd (snd (pushFilesToRepo (observed_fetch fetch) encode token username repoName
         (before @ file # after) (observed_progress onProgress) (s, [])))) =
      concat (map (file_steps username repoName) (before @ [file]))"
    by (simp add: pushFilesToRepo_append obs k del: pushFilesToRepo.simps)
qed

text \<open>The theorem at three files, the second of which is refused.\<close>

theorem pushFilesToRepo_in_order_until_failed_upload_witness:
  "pushFilesToRepo (github_refusing (lit ''b.txt'')) Inr (lit ''t'') (lit ''octocat'') (lit ''demo'')
      [file_a, file_c] ignore_progress 0 = (Inr (), 4)
   \<and> map seen (snd (snd (pushFilesToRepo (observed_fetch (github_refusing (lit ''b.txt''))) Inr
        (lit ''t'') (lit ''octocat'') (lit ''demo'') [file_a, file_c]
        (observed_progress ignore_progress) (0, [])))) =
      concat (map (file_steps (lit ''octocat'') (lit ''demo'')) [file_a, file_c])
   \<and> pushFilesToRepo (github_refusing (lit ''b.txt'')) Inr (lit ''t'') (lit ''octocat'') (lit ''demo'')
      [file_a] ignore_progress 0 = (Inr (), 2)
   \<and> \<not> ok \<lparr>ok = False, json = Inr example_json\<rparr>
   \<and> pushFilesToRepo (github_refusing (lit ''b.txt'')) Inr (lit ''t'') (lit ''octocat'') (lit ''demo'')
      ([file_a] @ file_b # [file_c]) ignore_progress 0 =
        (Inl (Error (lit ''Failed to upload '' @ path file_b)), 4)
   \<and> map seen (snd (snd (pushFilesToRepo (observed_fetch (github_refusing (lit ''b.txt''))) Inr
        (lit ''t'') (lit ''octocat'') (lit ''demo'') ([file_a] @ file_b # [file_c])
        (observed_progress ignore_progress) (0, [])))) =
      concat (map (file_steps (lit ''octocat'') (lit ''demo'')) ([file_a] @ [file_b]))"
proof -
  have all: "pushFilesToRepo (github_refusing (lit ''b.txt'')) Inr (lit ''t'') (lit ''octocat'') (lit ''demo'')
      [file_a, file_c] ignore_progress 0 = (Inr (), 4)"
    by (simp add: github_refusing_def ignore_progress_def file_a_def file_c_def Let_def
        check_request_def upload_request_def contents_url_def lit_Cons lit_Nil)
  have pre: "pushFilesToRepo (github_refusing (lit ''b.txt'')) Inr (lit ''t'') (lit ''octocat'') (lit ''demo'')
      [file_a] ignore_progress 0 = (Inr (), 2)"
    by (simp add: github_refusing_def ignore_progress_def file_a_def Let_def
        check_request_def upload_request_def contents_url_def lit_Cons lit_Nil)
  have chk: "github_refusing (lit ''b.txt'') (check_request (lit ''t'') (lit ''octocat'') (lit ''demo'') file_b)
       (ignore_progress (progress_message file_b) 2) = (Inr \<lparr>ok = False, json = Inr example_json\<rparr>, 3)"
    by (simp add: github_refusing_def ignore_progress_def file_b_def check_request_def)
  have enc: "Inr (content file_b) = (Inr (lit ''B'') :: js_error + jsstring)"
    by (simp add: file_b_def)
  have up: "github_refusing (lit ''b.txt'') (upload_request (lit ''t'') (lit ''octocat'') (lit ''demo'') file_b
       (lit ''B'') (sha_of (Inr \<lparr>ok = False, json = Inr example_json\<rparr>))) 3 = (Inr \<lparr>ok = False, json = Inr example_json\<rparr>, 4)"
    by (simp add: github_refusing_def file_b_def upload_request_def)
  have bad: "\<not> ok \<lparr>ok = False, json = Inr example_json\<rparr>"
    by simp
  note inst = pushFilesToRepo_in_order_until_failed_upload
    [where fetch = "github_refusing (lit ''b.txt'')" and encode = Inr and token = "lit ''t''"
       and username = "lit ''octocat''" and repoName = "lit ''demo''"
       and allFiles = "[file_a, file_c]" and onProgress = ignore_progress and s = 0 and sN = 4
       and before = "[file_a]" and ?s1.0 = 2 and ?file = file_b
       and checkRes = "Inr \<lparr>ok = False, json = Inr example_json\<rparr>" and ?s2.0 = 3
       and contentEncoded = "lit ''B''" and res = "\<lparr>ok = False, json = Inr example_json\<rparr>"
       and ?s3.0 = 4 and after = "[file_c]"]
  from inst all have r1: "map seen (snd (snd (pushFilesToRepo (observed_fetch (github_refusing (lit ''b.txt''))) Inr
        (lit ''t'') (lit ''octocat'') (lit ''demo'') [file_a, file_c]
        (observed_progress ignore_progress) (0, [])))) =
      concat (map (file_steps (lit ''octocat'') (lit ''demo'')) [file_a, file_c])"
    by blast
  from inst pre chk enc up bad have r2: "pushFilesToRepo (github_refusing (lit ''b.txt'')) Inr (lit ''t'') (lit ''octocat'') (lit ''demo'')
      ([file_a] @ file_b # [file_c]) ignore_progress 0 =
        (Inl (Error (lit ''Failed to upload '' @ path file_b)), 4)
   \<and> map seen (snd (snd (pushFilesToRepo (observed_fetch (github_refusing (lit ''b.txt''))) Inr
        (lit ''t'') (lit ''octocat'') (lit ''demo'') ([file_a] @ file_b # [file_c])
        (observed_progress ignore_progress) (0, [])))) =
      concat (map (file_steps (lit ''octocat'') (lit ''demo'')) ([file_a] @ [file_b]))"
    by blast
  from all r1 pre bad r2 show ?thesis by blast
qed

text \<open>
  Claim C1 as stated names the error \<open>upload failed for <path>\<close>; the error thrown when
  the upload of \<open>a.txt\<close> is refused reads otherwise.
\<close>

theorem pushFilesToRepo_message_counterexample:
  "pushFilesToRepo (github_down None) Inr (lit ''t'') (lit ''octocat'') (lit ''demo'')
      [file_a] ignore_progress 0 = (Inl (Error (lit ''Failed to upload a.txt'')), 2)
   \<and> lit ''Failed to upload a.txt'' \<noteq> lit ''upload failed for a.txt''"
  by (simp add: github_down_def ignore_progress_def file_a_def Let_def lit_Cons lit_Nil)


section \<open>createRepository\<close>

lemma taken_includes: "includes_js taken (lit ''name already exists'')"
  by (simp add: taken_def lit_Cons lit_Nil)

text \<open>A body that is not JSON makes \<^verbatim>\<open>response.json()\<close> throw, whether the answer is ok or not.\<close>

lemma createRepository_body_not_json:
  "fetch (create_request token nm descr) s = (Inr response, s1) \<Longrightarrow> json response = Inl e \<Longrightarrow>
   createRepository fetch token nm descr s = (Inl e, s1)"
  by (simp add: createRepository_def)



text \<open>
  Claim C10. On the collision path the token is verified a second time; when that
  request is answered with a response that is not ok, \<open>createRepository\<close> throws
  \<open>Invalid GitHub Token\<close> and returns no repository.
\<close>

theorem createRepository_second_verification:
  "fetch (create_request token nm descr) s = (Inr response, s1) \<Longrightarrow> \<not> ok response \<Longrightarrow>
   json response = Inr err \<Longrightarrow>
   err_message err = Some m \<Longrightarrow> includes_js m (lit ''name already exists'') \<Longrightarrow>
   fetch (verify_request token) s1 = (Inr response2, s2) \<Longrightarrow> \<not> ok response2 \<Longrightarrow>
   createRepository fetch token nm descr s = (Inl (Error (lit ''Invalid GitHub Token'')), s2)"
proof -
  assume a: "fetch (create_request token nm descr) s = (Inr response, s1)" "\<not> ok response"
      "json response = Inr err"
    and b: "err_message err = Some m" "includes_js m (lit ''name already exists'')"
    and c: "fetch (verify_request token) s1 = (Inr response2, s2)" "\<not> ok response2"
  from b have "m \<noteq> []" by (auto simp: lit_Cons)
  with b have "name_exists err" by (simp add: name_exists_def)
  moreover from c have "verifyGithubToken fetch token s1 = (Inl (Error (lit ''Invalid GitHub Token'')), s2)"
    by (simp add: verifyGithubToken_def)
  ultimately show ?thesis using a by (simp add: createRepository_def)
qed


text \<open>The theorem at a service that refuses every request.\<close>

theorem createRepository_second_verification_witness:
  "github_down (Some taken) (create_request (lit ''revoked'') (lit ''site'') (lit ''d'')) 0 =
     (Inr \<lparr>ok = False, json = Inr (example_json\<lparr>err_message := Some taken\<rparr>)\<rparr>, 1)
   \<and> includes_js taken (lit ''name already exists'')
   \<and> github_down (Some taken) (verify_request (lit ''revoked'')) 1 =
     (Inr \<lparr>ok = False, json = Inr (example_json\<lparr>err_message := Some taken\<rparr>)\<rparr>, 2)
   \<and> createRepository (github_down (Some taken)) (lit ''revoked'') (lit ''site'') (lit ''d'') 0 =
     (Inl (Error (lit ''Invalid GitHub Token'')), 2)"
proof -
  have post: "github_down (Some taken) (create_request (lit ''revoked'') (lit ''site'') (lit ''d'')) 0 =
     (Inr \<lparr>ok = False, json = Inr (example_json\<lparr>err_message := Some taken\<rparr>)\<rparr>, 1)"
    by (simp add: github_down_def)
  have get: "github_down (Some taken) (verify_request (lit ''revoked'')) 1 =
     (Inr \<lparr>ok = False, json = Inr (example_json\<lparr>err_message := Some taken\<rparr>)\<rparr>, 2)"
    by (simp add: github_down_def)
  have "createRepository (github_down (Some taken)) (lit ''revoked'') (lit ''site'') (lit ''d'') 0 =
     (Inl (Error (lit ''Invalid GitHub Token'')), 2)"
    by (rule createRepository_second_verification
          [OF post _ _ _ taken_includes get, where err = "example_json\<lparr>err_message := Some taken\<rparr>"])
       simp_all
  with post get taken_includes show ?thesis by blast
qed


section \<open>Substrings of log messages\<close>

lemma includes_js_set: "includes_js xs sub \<Longrightarrow> set sub \<subseteq> set xs"
proof (induction xs)
  case Nil
  then show ?case by simp
next
  case (Cons x xs)
  show ?case
  proof (cases "take (length sub) (x # xs) = sub")
    case True
    then have "set sub = set (take (length sub) (x # xs))" by simp
    then show ?thesis using set_take_subset by metis
  next
    case False
    with Cons show ?thesis by auto
  qed
qed

lemma includes_js_skip_prefix:
  "sub \<noteq> [] \<Longrightarrow> hd sub \<notin> set a \<Longrightarrow> includes_js (a @ b) sub = includes_js b sub"
proof (induction a)
  case Nil
  then show ?case by simp
next
  case (Cons c a)
  then have "take (length sub) (c # a @ b) \<noteq> sub"
    by (cases sub) auto
  with Cons show ?case by simp
qed

lemma take_append_last:
  assumes "sub \<noteq> []" "last sub \<notin> set c"
  shows "take (length sub) (b @ c) = sub \<longleftrightarrow> take (length sub) b = sub"
proof (cases "length sub \<le> length b")
  case True
  then show ?thesis by simp
next
  case False
  then have short: "take (length sub) b = b" "b \<noteq> sub" by auto
  have "take (length sub) (b @ c) \<noteq> sub"
  proof
    assume eq: "take (length sub) (b @ c) = sub"
    then have sub: "sub = b @ take (length sub - length b) c" using False by simp
    have "take (length sub - length b) c \<noteq> []"
      using sub short(2) by auto
    with sub have "last sub = last (take (length sub - length b) c)"
      by (metis last_appendR)
    moreover have "last (take (length sub - length b) c) \<in> set c"
      using \<open>take (length sub - length b) c \<noteq> []\<close> by (meson in_set_takeD last_in_set)
    ultimately show False using assms(2) by simp
  qed
  with short show ?thesis by simp
qed

lemma includes_js_skip_suffix:
  assumes "sub \<noteq> []" "last sub \<notin> set c"
  shows "includes_js (b @ c) sub = includes_js b sub"
proof (induction b)
  case Nil
  have "\<not> includes_js c sub"
  proof
    assume "includes_js c sub"
    then have "set sub \<subseteq> set c" by (rule includes_js_set)
    moreover have "last sub \<in> set sub" using assms(1) by simp
    ultimately show False using assms(2) by blast
  qed
  with assms(1) show ?case by simp
next
  case (Cons x b)
  have "take (length sub) ((x # b) @ c) = sub \<longleftrightarrow> take (length sub) (x # b) = sub"
    by (rule take_append_last [OF assms])
  with Cons show ?case by simp
qed

lemma skip_phrase: "lit ''Skipping Vercel deployment'' \<noteq> []"
  "hd (lit ''Skipping Vercel deployment'') = 83" "last (lit ''Skipping Vercel deployment'') = 116"
  by (simp_all add: lit_Cons lit_Nil)

lemma mentions_skip_created:
  "mentions_skip (lit ''Repository created: '' @ u, t) = includes_js u (lit ''Skipping Vercel deployment'')"
  unfolding mentions_skip_def fst_conv
  by (rule includes_js_skip_prefix) (simp_all add: skip_phrase, simp add: lit_Cons lit_Nil)

lemma mentions_skip_progress:
  "mentions_skip (progress_message f, t) = includes_js (path f) (lit ''Skipping Vercel deployment'')"
proof -
  have "includes_js (lit ''Pushing '' @ path f @ lit ''...'') (lit ''Skipping Vercel deployment'')
        = includes_js (path f @ lit ''...'') (lit ''Skipping Vercel deployment'')"
    by (rule includes_js_skip_prefix) (simp_all add: skip_phrase, simp add: lit_Cons lit_Nil)
  also have "\<dots> = includes_js (path f) (lit ''Skipping Vercel deployment'')"
    by (rule includes_js_skip_suffix) (simp_all add: skip_phrase, simp add: lit_Cons lit_Nil)
  finally show ?thesis by (simp add: mentions_skip_def progress_message_def)
qed

lemma mentions_skip_fixed:
  "\<not> mentions_skip (lit ''Creating GitHub repository...'', t)"
  "\<not> mentions_skip (lit ''All files pushed to GitHub.'', t)"
  "mentions_skip (lit ''Skipping Vercel deployment (no token provided).'', t)"
  by (simp_all add: mentions_skip_def lit_Cons lit_Nil)

lemma count_one:
  "\<not> P a \<Longrightarrow> \<not> P b \<Longrightarrow> \<forall>x\<in>set xs. \<not> P x \<Longrightarrow> \<not> P c \<Longrightarrow> P d \<Longrightarrow>
   length (filter P ([a, b] @ xs @ [c, d])) = 1"
  by (simp add: filter_empty_conv [THEN iffD2])


section \<open>What the services leave alone\<close>

lemma only_world_refl [simp]: "only_world s s"
  by (simp add: only_world_def)

lemma fetch_in_frame: "fetch_in env req s = (res, s') \<Longrightarrow> only_world s s'"
  by (auto simp: fetch_in_def only_world_def split: prod.splits)

lemma verify_frame:
  "verifyGithubToken (fetch_in env) token s = (res, s') \<Longrightarrow> only_world s s'"
  by (auto simp: verifyGithubToken_def split: prod.splits sum.splits if_splits dest: fetch_in_frame)

lemma only_world_trans: "only_world s s' \<Longrightarrow> only_world s' s'' \<Longrightarrow> only_world s s''"
  by (simp add: only_world_def)

lemma create_frame:
  "createRepository (fetch_in env) token nm descr s = (res, s') \<Longrightarrow> only_world s s'"
  by (auto simp: createRepository_def Let_def split: prod.splits sum.splits if_splits
      dest: fetch_in_frame verify_frame only_world_trans)

lemma addLog_cells [simp]:
  "step (addLog env m t s) = step s"
  "config (addLog env m t s) = config s"
  "prompt (addLog env m t s) = prompt s"
  "project (addLog env m t s) = project s"
  "deploymentUrl (addLog env m t s) = deploymentUrl s"
  "repoUrl (addLog env m t s) = repoUrl s"
  "isLoading (addLog env m t s) = isLoading s"
  "localStorage (addLog env m t s) = localStorage s"
  "world (addLog env m t s) = world s"
  by (simp_all add: addLog_def)

lemma addLog_narration [simp]:
  "narration (logs (addLog env m t s)) = narration (logs s) @ [(m, t)]"
  by (simp add: addLog_def narration_def)

lemma addLog_grows: "\<exists>entries. logs (addLog env m t s) = logs s @ entries"
  by (simp add: addLog_def)

lemma owl_trans:
  "only_world_and_logs a b \<Longrightarrow> only_world_and_logs b c \<Longrightarrow> only_world_and_logs a c"
  by (auto simp: only_world_and_logs_def)

lemma ow_owl: "only_world a b \<Longrightarrow> only_world_and_logs a b"
  by (simp add: only_world_def only_world_and_logs_def)

lemma addLog_owl: "only_world_and_logs s (addLog env m t s)"
  by (simp add: only_world_and_logs_def addLog_grows)

lemma push_frame:
  "pushFilesToRepo (fetch_in env) enc token u r fs (\<lambda>msg. addLog env msg info) s = (res, s') \<Longrightarrow>
   only_world_and_logs s s'"
proof (induction fs arbitrary: s)
  case Nil
  then show ?case by (simp add: only_world_and_logs_def)
next
  case (Cons f fs)
  obtain checkRes s2 where c: "fetch_in env (check_request token u r f)
      (addLog env (progress_message f) info s) = (checkRes, s2)"
    by fastforce
  have a: "only_world_and_logs s s2"
    using addLog_owl fetch_in_frame [OF c] ow_owl owl_trans by blast
  show ?case
  proof (cases "enc (content f)")
    case (Inl e)
    with Cons.prems c have "s' = s2" by (simp add: Let_def)
    with a show ?thesis by simp
  next
    case (Inr ce)
    obtain r3 s3 where up: "fetch_in env (upload_request token u r f ce (sha_of checkRes)) s2 = (r3, s3)"
      by fastforce
    have b: "only_world_and_logs s s3"
      using a fetch_in_frame [OF up] ow_owl owl_trans by blast
    show ?thesis
    proof (cases r3)
      case (Inl e)
      with Cons.prems c Inr up have "s' = s3" by (simp add: Let_def)
      with b show ?thesis by simp
    next
      case (Inr response)
      note r3 = this
      show ?thesis
      proof (cases "ok response")
        case False
        with Cons.prems c \<open>enc (content f) = Inr ce\<close> up r3 have "s' = s3" by (simp add: Let_def)
        with b show ?thesis by simp
      next
        case True
        with Cons.prems c \<open>enc (content f) = Inr ce\<close> up r3
        have "pushFilesToRepo (fetch_in env) enc token u r fs (\<lambda>msg. addLog env msg info) s3 = (res, s')"
          by (simp add: Let_def)
        then have "only_world_and_logs s3 s'" by (rule Cons.IH)
        with b show ?thesis by (rule owl_trans)
      qed
    qed
  qed
qed

lemma push_narration:
  "pushFilesToRepo (fetch_in env) enc token u r fs (\<lambda>msg. addLog env msg info) s = (Inr v, s') \<Longrightarrow>
   narration (logs s') = narration (logs s) @ map (\<lambda>f. (progress_message f, info)) fs"
proof (induction fs arbitrary: s)
  case Nil
  then show ?case by simp
next
  case (Cons f fs)
  obtain checkRes s2 where c: "fetch_in env (check_request token u r f)
      (addLog env (progress_message f) info s) = (checkRes, s2)"
    by fastforce
  from fetch_in_frame [OF c] have l2: "logs s2 = logs (addLog env (progress_message f) info s)"
    by (simp add: only_world_def)
  from Cons.prems c obtain ce where enc: "enc (content f) = Inr ce"
    by (cases "enc (content f)") (simp_all add: Let_def)
  obtain r3 s3 where up: "fetch_in env (upload_request token u r f ce (sha_of checkRes)) s2 = (r3, s3)"
    by fastforce
  from fetch_in_frame [OF up] have l3: "logs s3 = logs s2"
    by (simp add: only_world_def)
  from Cons.prems c enc up
  have "pushFilesToRepo (fetch_in env) enc token u r fs (\<lambda>msg. addLog env msg info) s3 = (Inr v, s')"
    by (simp add: Let_def split: sum.splits if_splits)
  then have "narration (logs s') = narration (logs s3) @ map (\<lambda>f. (progress_message f, info)) fs"
    by (rule Cons.IH)
  then show ?case by (simp add: l3 l2)
qed

lemma create_repo_step_frame:
  "create_repo_step env cfg p s = (res, s') \<Longrightarrow>
   step s' = step s \<and> project s' = project s \<and> deploymentUrl s' = deploymentUrl s \<and>
   (\<exists>entries. logs s' = logs s @ entries)"
  by (auto simp: create_repo_step_def Let_def addLog_def only_world_def
      split: prod.splits sum.splits dest!: create_frame)

lemma create_repo_step_ok:
  "create_repo_step env cfg p s = (Inr v, s') \<Longrightarrow>
   \<exists>answered. repoUrl s' = stored answered \<and>
     narration (logs s') = narration (logs s) @
       [(lit ''Creating GitHub repository...'', info),
        (lit ''Repository created: '' @ template answered, success)]"
  by (auto simp: create_repo_step_def Let_def only_world_def
      split: prod.splits sum.splits dest!: create_frame)

lemma stored_template: "stored answered = Some link \<Longrightarrow> template answered = link"
  by (cases answered) simp_all



lemma push_files_step_frame:
  "push_files_step env cfg p s = (res, s') \<Longrightarrow> only_world_and_logs s s'"
  by (auto simp: push_files_step_def split: prod.splits sum.splits
      dest!: push_frame intro: owl_trans addLog_owl)

lemma push_files_step_ok:
  "push_files_step env cfg p s = (Inr v, s') \<Longrightarrow>
   narration (logs s') = narration (logs s) @ map (\<lambda>f. (progress_message f, info)) (files p) @
       [(lit ''All files pushed to GitHub.'', success)]"
  by (auto simp: push_files_step_def split: prod.splits sum.splits dest!: push_narration)

lemma vercel_step_frame:
  "vercel_step env cfg p s = (res, s') \<Longrightarrow>
   step s' = step s \<and> project s' = project s \<and> repoUrl s' = repoUrl s \<and>
   (\<exists>entries. logs s' = logs s @ entries)"
  by (auto simp: vercel_step_def Let_def addLog_def split: prod.splits sum.splits if_splits)

lemma vercel_step_skip:
  "vercelToken cfg = [] \<Longrightarrow>
   vercel_step env cfg p s =
     (Inr (), addLog env (lit ''Skipping Vercel deployment (no token provided).'') warning s)"
  by (simp add: vercel_step_def)

lemma deploy_try_frame:
  "deploy_try env cfg p s = (res, s') \<Longrightarrow>
   project s' = project s \<and> (\<exists>entries. logs s' = logs s @ entries)"
proof -
  assume run: "deploy_try env cfg p s = (res, s')"
  obtain r1 s1 where one: "create_repo_step env cfg p s = (r1, s1)" by fastforce
  obtain r2 s2 where two: "push_files_step env cfg p s1 = (r2, s2)" by fastforce
  obtain r3 s3 where three: "vercel_step env cfg p s2 = (r3, s3)" by fastforce
  from create_repo_step_frame [OF one] obtain e1 where
    f1: "project s1 = project s" "logs s1 = logs s @ e1" by blast
  from push_files_step_frame [OF two] obtain e2 where
    f2: "project s2 = project s1" "logs s2 = logs s1 @ e2" by (auto simp: only_world_and_logs_def)
  from vercel_step_frame [OF three] obtain e3 where
    f3: "project s3 = project s2" "logs s3 = logs s2 @ e3" by blast
  from run one two three have "s' = s1 \<or> s' = s2 \<or> s' = s3 \<or> s' = s3\<lparr>step := SUCCESS\<rparr>"
    by (auto simp: deploy_try_def split: sum.splits)
  with f1 f2 f3 show ?thesis by auto
qed


lemmas run_defs = handleDeploy_def deploy_try_def create_repo_step_def push_files_step_def
  vercel_step_def createRepository_def verifyGithubToken_def fetch_in_def addLog_def
  browser_def reviewing_def with_hosting_def hello_world_def example_json_def Let_def
  created_json_def create_request_def check_request_def upload_request_def verify_request_def
  name_exists_def message_text_def narration_def

lemmas session_defs = session_def dispatch_def mount_def initialState_def handleSaveConfig_def
  handleGenerate_def trim_def isWhiteSpace_def nat_to_string.simps


section \<open>handleSaveConfig\<close>

text \<open>
  Claim C7. \<open>handleSaveConfig\<close> verifies the token of the configuration. When the
  verification returns a login, the configuration with that login as account identifier
  is stored in the state and written to local storage, a success entry is logged and the
  stage becomes Prompt. When the verification throws, the error is logged and the stage,
  the configuration and local storage are unchanged.
\<close>

theorem handleSaveConfig_outcomes:
  "(verifyGithubToken (fetch_in env) (githubToken (config s)) (s\<lparr>isLoading := True\<rparr>)
      = (Inr username, s1) \<longrightarrow>
      config (handleSaveConfig env s) = (config s)\<lparr>githubUsername := username\<rparr> \<and>
      localStorage (handleSaveConfig env s) =
        (localStorage s)(lit ''autodeploy_config'' \<mapsto> (config s)\<lparr>githubUsername := username\<rparr>) \<and>
      narration (logs (handleSaveConfig env s)) =
        narration (logs s) @ [(lit ''Authenticated as GitHub user: '' @ username, success)] \<and>
      step (handleSaveConfig env s) = PROMPT)
   \<and> (verifyGithubToken (fetch_in env) (githubToken (config s)) (s\<lparr>isLoading := True\<rparr>)
      = (Inl e, s1) \<longrightarrow>
      narration (logs (handleSaveConfig env s)) = narration (logs s) @ [(message e, error)] \<and>
      step (handleSaveConfig env s) = step s \<and>
      config (handleSaveConfig env s) = config s \<and>
      localStorage (handleSaveConfig env s) = localStorage s)"
proof (intro conjI impI)
  assume v: "verifyGithubToken (fetch_in env) (githubToken (config s)) (s\<lparr>isLoading := True\<rparr>)
      = (Inr username, s1)"
  from verify_frame [OF v] have f: "logs s1 = logs s" "localStorage s1 = localStorage s"
    by (simp_all add: only_world_def)
  from v f show "config (handleSaveConfig env s) = (config s)\<lparr>githubUsername := username\<rparr>"
    "localStorage (handleSaveConfig env s) =
        (localStorage s)(lit ''autodeploy_config'' \<mapsto> (config s)\<lparr>githubUsername := username\<rparr>)"
    "narration (logs (handleSaveConfig env s)) =
        narration (logs s) @ [(lit ''Authenticated as GitHub user: '' @ username, success)]"
    "step (handleSaveConfig env s) = PROMPT"
    by (simp_all add: handleSaveConfig_def Let_def addLog_def narration_def)
next
  assume v: "verifyGithubToken (fetch_in env) (githubToken (config s)) (s\<lparr>isLoading := True\<rparr>)
      = (Inl e, s1)"
  from verify_frame [OF v] have f: "logs s1 = logs s" "localStorage s1 = localStorage s"
    "step s1 = step s" "config s1 = config s"
    by (simp_all add: only_world_def)
  from v f show "narration (logs (handleSaveConfig env s)) = narration (logs s) @ [(message e, error)]"
    "step (handleSaveConfig env s) = step s"
    "config (handleSaveConfig env s) = config s"
    "localStorage (handleSaveConfig env s) = localStorage s"
    by (simp_all add: handleSaveConfig_def Let_def addLog_def narration_def)
qed

text \<open>The theorem at a service that accepts the token and at one that refuses it.\<close>

theorem handleSaveConfig_outcomes_witness:
  "verifyGithubToken (fetch_in (browser github_up (Inr hello_world) (Inr ()))) (githubToken (config configuring))
      (configuring\<lparr>isLoading := True\<rparr>) = (Inr (lit ''octocat''), configuring\<lparr>isLoading := True, world := 1\<rparr>)
   \<and> githubUsername (config (handleSaveConfig (browser github_up (Inr hello_world) (Inr ())) configuring))
       = lit ''octocat''
   \<and> localStorage (handleSaveConfig (browser github_up (Inr hello_world) (Inr ())) configuring)
        (lit ''autodeploy_config'')
       = Some \<lparr>githubToken = lit ''t'', vercelToken = [], githubUsername = lit ''octocat'', geminiKey = []\<rparr>
   \<and> step (handleSaveConfig (browser github_up (Inr hello_world) (Inr ())) configuring) = PROMPT
   \<and> verifyGithubToken (fetch_in (browser (github_down None) (Inr hello_world) (Inr ())))
      (githubToken (config configuring)) (configuring\<lparr>isLoading := True\<rparr>)
       = (Inl (Error (lit ''Invalid GitHub Token'')), configuring\<lparr>isLoading := True, world := 1\<rparr>)
   \<and> narration (logs (handleSaveConfig (browser (github_down None) (Inr hello_world) (Inr ())) configuring))
       = [(lit ''Invalid GitHub Token'', error)]
   \<and> step (handleSaveConfig (browser (github_down None) (Inr hello_world) (Inr ())) configuring) = CONFIG"
proof -
  have up: "verifyGithubToken (fetch_in (browser github_up (Inr hello_world) (Inr ()))) (githubToken (config configuring))
      (configuring\<lparr>isLoading := True\<rparr>) = (Inr (lit ''octocat''), configuring\<lparr>isLoading := True, world := 1\<rparr>)"
    by (simp add: verifyGithubToken_def fetch_in_def browser_def github_up_def configuring_def
        initialState_def example_json_def created_json_def verify_request_def)
  have down: "verifyGithubToken (fetch_in (browser (github_down None) (Inr hello_world) (Inr ())))
      (githubToken (config configuring)) (configuring\<lparr>isLoading := True\<rparr>)
       = (Inl (Error (lit ''Invalid GitHub Token'')), configuring\<lparr>isLoading := True, world := 1\<rparr>)"
    by (simp add: verifyGithubToken_def fetch_in_def browser_def github_down_def configuring_def
        initialState_def example_json_def created_json_def verify_request_def)
  from handleSaveConfig_outcomes [of "browser github_up (Inr hello_world) (Inr ())" configuring
      "lit ''octocat''" "configuring\<lparr>isLoading := True, world := 1\<rparr>"] up
  have r1: "githubUsername (config (handleSaveConfig (browser github_up (Inr hello_world) (Inr ())) configuring))
       = lit ''octocat''
   \<and> localStorage (handleSaveConfig (browser github_up (Inr hello_world) (Inr ())) configuring)
        (lit ''autodeploy_config'')
       = Some \<lparr>githubToken = lit ''t'', vercelToken = [], githubUsername = lit ''octocat'', geminiKey = []\<rparr>
   \<and> step (handleSaveConfig (browser github_up (Inr hello_world) (Inr ())) configuring) = PROMPT"
    by (simp add: configuring_def initialState_def)
  from handleSaveConfig_outcomes [of "browser (github_down None) (Inr hello_world) (Inr ())" configuring
      _ "configuring\<lparr>isLoading := True, world := 1\<rparr>" "Error (lit ''Invalid GitHub Token'')"] down
  have r2: "narration (logs (handleSaveConfig (browser (github_down None) (Inr hello_world) (Inr ())) configuring))
       = [(lit ''Invalid GitHub Token'', error)]
   \<and> step (handleSaveConfig (browser (github_down None) (Inr hello_world) (Inr ())) configuring) = CONFIG"
    by (simp add: configuring_def initialState_def narration_def)
  from up down r1 r2 show ?thesis by blast
qed


section \<open>handleGenerate\<close>

lemma dropWhile_all: "(\<forall>x\<in>set (dropWhile P xs). P x) \<longleftrightarrow> (\<forall>x\<in>set xs. P x)"
proof
  assume all: "\<forall>x\<in>set (dropWhile P xs). P x"
  have "dropWhile P xs = []"
  proof (rule ccontr)
    assume ne: "dropWhile P xs \<noteq> []"
    then have "\<not> P (hd (dropWhile P xs))" by (rule hd_dropWhile)
    moreover from ne have "hd (dropWhile P xs) \<in> set (dropWhile P xs)" by simp
    ultimately show False using all by blast
  qed
  then show "\<forall>x\<in>set xs. P x" by simp
next
  assume "\<forall>x\<in>set xs. P x"
  then show "\<forall>x\<in>set (dropWhile P xs). P x" by (auto dest: set_dropWhileD)
qed

lemma trim_empty_iff: "trim p = [] \<longleftrightarrow> (\<forall>c\<in>set p. isWhiteSpace c)"
  by (simp add: trim_def dropWhile_all)

text \<open>
  Claim C8. When every code unit of the prompt is white space (the empty prompt
  included), \<open>handleGenerate\<close> returns the state it was given: stage, project, log and
  all the rest are unchanged.
\<close>

theorem handleGenerate_blank_prompt:
  "\<forall>c\<in>set (prompt s). isWhiteSpace c \<Longrightarrow> handleGenerate env s = s"
  by (simp add: handleGenerate_def trim_empty_iff)

text \<open>The theorem at a prompt of a space, a tab, a line feed and a no-break space, and at the empty prompt.\<close>

theorem handleGenerate_blank_prompt_witness:
  "list_all isWhiteSpace (prompt (asking\<lparr>prompt := [32, 9, 10, 160]\<rparr>))
   \<and> handleGenerate (browser github_up (Inr hello_world) (Inr ())) (asking\<lparr>prompt := [32, 9, 10, 160]\<rparr>)
       = asking\<lparr>prompt := [32, 9, 10, 160]\<rparr>
   \<and> handleGenerate (browser github_up (Inr hello_world) (Inr ())) (asking\<lparr>prompt := []\<rparr>)
       = asking\<lparr>prompt := []\<rparr>"
proof -
  have b: "\<forall>c\<in>set (prompt (asking\<lparr>prompt := [32, 9, 10, 160]\<rparr>)). isWhiteSpace c"
    by (simp add: isWhiteSpace_def)
  have e: "\<forall>c\<in>set (prompt (asking\<lparr>prompt := []\<rparr>)). isWhiteSpace c"
    by simp
  from b handleGenerate_blank_prompt [OF b] handleGenerate_blank_prompt [OF e]
  show ?thesis by (simp add: list_all_iff)
qed

text \<open>
  Claim C3, as the code has it. When the prompt is not blank and the generation client
  throws, \<open>handleGenerate\<close> ends in stage Prompt, not loading, with the error logged
  after the announcement; the stored project is the one stored before the call, so no
  new project is stored and none is discarded.
\<close>

theorem handleGenerate_failure:
  "trim (prompt s) \<noteq> [] \<Longrightarrow>
   generateProjectCode env (prompt s) (lit ''generate'') (geminiKey (config s)) (world s) = (Inl e, w) \<Longrightarrow>
   step (handleGenerate env s) = PROMPT \<and>
   project (handleGenerate env s) = project s \<and>
   isLoading (handleGenerate env s) = False \<and>
   narration (logs (handleGenerate env s)) =
     narration (logs s) @
       [(lit ''Generating project for: '' @ [34] @ prompt s @ [34] @ lit ''...'', info),
        (message e, error)]"
  by (simp add: handleGenerate_def Let_def)

lemma asking_not_blank: "trim (prompt asking) \<noteq> []"
  by (simp add: asking_def trim_def isWhiteSpace_def lit_Cons lit_Nil)

text \<open>The theorem at a page that holds no project and a generation that fails.\<close>

theorem handleGenerate_failure_witness:
  "trim (prompt asking) \<noteq> []
   \<and> step (handleGenerate (browser github_up (Inl (Error (lit ''quota''))) (Inr ())) asking) = PROMPT
   \<and> project (handleGenerate (browser github_up (Inl (Error (lit ''quota''))) (Inr ())) asking) = None
   \<and> narration (logs (handleGenerate (browser github_up (Inl (Error (lit ''quota''))) (Inr ())) asking)) =
       [(lit ''Generating project for: '' @ [34] @ lit ''a hello world page'' @ [34] @ lit ''...'', info),
        (lit ''quota'', error)]"
proof -
  have g: "generateProjectCode (browser github_up (Inl (Error (lit ''quota''))) (Inr ())) (prompt asking)
      (lit ''generate'') (geminiKey (config asking)) (world asking) = (Inl (Error (lit ''quota'')), 1)"
    by (simp add: browser_def asking_def)
  from handleGenerate_failure [OF asking_not_blank g] asking_not_blank
  show ?thesis by (simp add: asking_def narration_def)
qed

text \<open>
  Claim C3 as stated has no project stored after a failed generation. On a page that
  holds a project from an earlier generation, the failed attempt leaves that project
  stored.
\<close>

theorem handleGenerate_failure_counterexample:
  "rendered GenerateClick asking_again
   \<and> generateProjectCode (browser github_up (Inl (Error (lit ''quota''))) (Inr ())) (prompt asking_again)
      (lit ''generate'') (geminiKey (config asking_again)) (world asking_again) =
     (Inl (Error (lit ''quota'')), 1)
   \<and> step (handleGenerate (browser github_up (Inl (Error (lit ''quota''))) (Inr ())) asking_again) = PROMPT
   \<and> project (handleGenerate (browser github_up (Inl (Error (lit ''quota''))) (Inr ())) asking_again)
       = Some hello_world"
  by (simp add: handleGenerate_def Let_def browser_def asking_again_def deployed_once_def trim_def isWhiteSpace_def
      lit_Cons lit_Nil)


section \<open>Reset and Settings\<close>

text \<open>
  Claim C4, as the code has it. The Reset button, where it is on the page, sets the
  stage to Prompt and changes nothing else: the project, the repository URL, the
  deployment URL and the log stay. The Settings button is on the page at every stage
  and sets the stage to Config.
\<close>

theorem reset_keeps_project_and_urls:
  "(rendered ResetClick s \<longrightarrow> dispatch env ResetClick s = s\<lparr>step := PROMPT\<rparr>)
   \<and> project (dispatch env ResetClick s) = project s
   \<and> repoUrl (dispatch env ResetClick s) = repoUrl s
   \<and> deploymentUrl (dispatch env ResetClick s) = deploymentUrl s
   \<and> logs (dispatch env ResetClick s) = logs s
   \<and> rendered SettingsClick s
   \<and> dispatch env SettingsClick s = s\<lparr>step := CONFIG\<rparr>"
  by (simp add: dispatch_def)

text \<open>The theorem at a page in review.\<close>

theorem reset_keeps_project_and_urls_witness:
  "rendered ResetClick reviewing
   \<and> step (dispatch (browser github_up (Inr hello_world) (Inr ())) ResetClick reviewing) = PROMPT
   \<and> project (dispatch (browser github_up (Inr hello_world) (Inr ())) ResetClick reviewing)
       = Some hello_world
   \<and> step (dispatch (browser github_up (Inr hello_world) (Inr ())) SettingsClick reviewing) = CONFIG"
proof -
  have r: "rendered ResetClick reviewing" by (simp add: reviewing_def)
  from reset_keeps_project_and_urls [of reviewing "browser github_up (Inr hello_world) (Inr ())"] r
  show ?thesis by (simp add: reviewing_def)
qed

text \<open>
  Claim C4 as stated has the reset discard the project and the deployment state. After
  a deployment, the reset leaves the project and both URLs stored.
\<close>

theorem reset_counterexample:
  "rendered ResetClick deployed_once
   \<and> step (dispatch (browser github_up (Inr hello_world) (Inr ())) ResetClick deployed_once) = PROMPT
   \<and> project (dispatch (browser github_up (Inr hello_world) (Inr ())) ResetClick deployed_once)
       = Some hello_world
   \<and> repoUrl (dispatch (browser github_up (Inr hello_world) (Inr ())) ResetClick deployed_once)
       = Some (lit ''https://github.com/octocat/hello-world'')
   \<and> deploymentUrl (dispatch (browser github_up (Inr hello_world) (Inr ())) ResetClick deployed_once)
       = Some (lit ''https://hello-world.vercel.app'')"
  by (simp add: dispatch_def deployed_once_def)


section \<open>handleDeploy\<close>

lemma handleDeploy_after_throw:
  assumes "project s = Some p" "githubUsername (config s) \<noteq> []"
    and "deploy_try env (config s) p (s\<lparr>step := DEPLOYING, isLoading := True\<rparr>) = (Inl e, s1)"
  shows "failed_deploy s s1 e (handleDeploy env s)"
proof -
  from deploy_try_frame [OF assms(3)] obtain entries where
    f: "project s1 = project s" "logs s1 = logs s @ entries" by auto
  from assms have "handleDeploy env s = (addLog env (message e) error s1)\<lparr>step := REVIEW, isLoading := False\<rparr>"
    by (simp add: handleDeploy_def Let_def)
  with f show ?thesis by (simp add: failed_deploy_def addLog_def narration_def)
qed

text \<open>
  Claim C5. Let a project be stored and the account identifier be resolved. Whichever
  step of the deployment throws (the creation of the repository, the pushing of the
  files after a creation that succeeded, or the hosting registration after both), the
  handler logs the error as one more entry and sets the stage to Review; the entries
  logged before the call are all still there, and the repository URL, the deployment URL
  and the outside world are left as they were when the error was thrown: nothing is
  rolled back.
\<close>

theorem handleDeploy_failure:
  "project s = Some p \<and> githubUsername (config s) \<noteq> [] \<longrightarrow>
     (create_repo_step env (config s) p (s\<lparr>step := DEPLOYING, isLoading := True\<rparr>) = (Inl e, s1) \<longrightarrow>
        failed_deploy s s1 e (handleDeploy env s))
   \<and> (create_repo_step env (config s) p (s\<lparr>step := DEPLOYING, isLoading := True\<rparr>) = (Inr (), sa) \<and>
      push_files_step env (config s) p sa = (Inl e, s1) \<longrightarrow>
        failed_deploy s s1 e (handleDeploy env s))
   \<and> (create_repo_step env (config s) p (s\<lparr>step := DEPLOYING, isLoading := True\<rparr>) = (Inr (), sa) \<and>
      push_files_step env (config s) p sa = (Inr (), sb) \<and>
      vercel_step env (config s) p sb = (Inl e, s1) \<longrightarrow>
        failed_deploy s s1 e (handleDeploy env s))"
proof (intro impI conjI)
  assume a: "project s = Some p \<and> githubUsername (config s) \<noteq> []"
  assume "create_repo_step env (config s) p (s\<lparr>step := DEPLOYING, isLoading := True\<rparr>) = (Inl e, s1)"
  then have "deploy_try env (config s) p (s\<lparr>step := DEPLOYING, isLoading := True\<rparr>) = (Inl e, s1)"
    by (simp add: deploy_try_def)
  with a show "failed_deploy s s1 e (handleDeploy env s)"
    by (intro handleDeploy_after_throw) simp_all
next
  assume a: "project s = Some p \<and> githubUsername (config s) \<noteq> []"
  assume "create_repo_step env (config s) p (s\<lparr>step := DEPLOYING, isLoading := True\<rparr>) = (Inr (), sa) \<and>
      push_files_step env (config s) p sa = (Inl e, s1)"
  then have "deploy_try env (config s) p (s\<lparr>step := DEPLOYING, isLoading := True\<rparr>) = (Inl e, s1)"
    by (simp add: deploy_try_def)
  with a show "failed_deploy s s1 e (handleDeploy env s)"
    by (intro handleDeploy_after_throw) simp_all
next
  assume a: "project s = Some p \<and> githubUsername (config s) \<noteq> []"
  assume "create_repo_step env (config s) p (s\<lparr>step := DEPLOYING, isLoading := True\<rparr>) = (Inr (), sa) \<and>
      push_files_step env (config s) p sa = (Inr (), sb) \<and>
      vercel_step env (config s) p sb = (Inl e, s1)"
  then have "deploy_try env (config s) p (s\<lparr>step := DEPLOYING, isLoading := True\<rparr>) = (Inl e, s1)"
    by (simp add: deploy_try_def)
  with a show "failed_deploy s s1 e (handleDeploy env s)"
    by (intro handleDeploy_after_throw) simp_all
qed

text \<open>
  The theorem at a service that refuses everything (the creation throws), at one that
  refuses uploads (the push throws) and at a hosting service that refuses (the
  registration throws).
\<close>

theorem handleDeploy_failure_witness:
  "failed_deploy reviewing
     (snd (create_repo_step (browser (github_down None) (Inr hello_world) (Inr ())) (config reviewing)
        hello_world (reviewing\<lparr>step := DEPLOYING, isLoading := True\<rparr>)))
     (Error (lit ''GitHub Create Repo Error: undefined''))
     (handleDeploy (browser (github_down None) (Inr hello_world) (Inr ())) reviewing)
   \<and> failed_deploy reviewing
     (snd (push_files_step (browser github_readonly (Inr hello_world) (Inr ())) (config reviewing)
        hello_world
        (snd (create_repo_step (browser github_readonly (Inr hello_world) (Inr ())) (config reviewing)
           hello_world (reviewing\<lparr>step := DEPLOYING, isLoading := True\<rparr>)))))
     (Error (lit ''Failed to upload index.html''))
     (handleDeploy (browser github_readonly (Inr hello_world) (Inr ())) reviewing)
   \<and> failed_deploy (with_hosting reviewing)
     (snd (vercel_step (browser github_up (Inr hello_world) (Inl (Error (lit ''Forbidden''))))
        (config (with_hosting reviewing)) hello_world
        (snd (push_files_step (browser github_up (Inr hello_world) (Inl (Error (lit ''Forbidden''))))
           (config (with_hosting reviewing)) hello_world
           (snd (create_repo_step (browser github_up (Inr hello_world) (Inl (Error (lit ''Forbidden''))))
              (config (with_hosting reviewing))
              hello_world ((with_hosting reviewing)\<lparr>step := DEPLOYING, isLoading := True\<rparr>)))))))
     (Error (lit ''Forbidden''))
     (handleDeploy (browser github_up (Inr hello_world) (Inl (Error (lit ''Forbidden'')))) (with_hosting reviewing))"
proof -
  have p: "project reviewing = Some hello_world \<and> githubUsername (config reviewing) \<noteq> []"
    "project (with_hosting reviewing) = Some hello_world \<and> githubUsername (config (with_hosting reviewing)) \<noteq> []"
    by (simp_all add: reviewing_def with_hosting_def lit_Cons)
  have c1: "fst (create_repo_step (browser (github_down None) (Inr hello_world) (Inr ())) (config reviewing)
        hello_world (reviewing\<lparr>step := DEPLOYING, isLoading := True\<rparr>)) = Inl (Error (lit ''GitHub Create Repo Error: undefined''))"
    by (simp add: run_defs github_down_def lit_Cons lit_Nil)
  have c2: "fst (create_repo_step (browser github_readonly (Inr hello_world) (Inr ())) (config reviewing)
        hello_world (reviewing\<lparr>step := DEPLOYING, isLoading := True\<rparr>)) = Inr ()"
    by (simp add: run_defs github_readonly_def create_request_def)
  have p2: "fst (push_files_step (browser github_readonly (Inr hello_world) (Inr ())) (config reviewing)
        hello_world
        (snd (create_repo_step (browser github_readonly (Inr hello_world) (Inr ())) (config reviewing)
           hello_world (reviewing\<lparr>step := DEPLOYING, isLoading := True\<rparr>)))) = Inl (Error (lit ''Failed to upload index.html''))"
    by (simp add: run_defs github_readonly_def create_request_def check_request_def upload_request_def lit_Cons lit_Nil)
  have c3: "fst (create_repo_step (browser github_up (Inr hello_world) (Inl (Error (lit ''Forbidden''))))
              (config (with_hosting reviewing))
              hello_world ((with_hosting reviewing)\<lparr>step := DEPLOYING, isLoading := True\<rparr>)) = Inr ()"
    by (simp add: run_defs github_up_def)
  have p3: "fst (push_files_step (browser github_up (Inr hello_world) (Inl (Error (lit ''Forbidden''))))
           (config (with_hosting reviewing)) hello_world
           (snd (create_repo_step (browser github_up (Inr hello_world) (Inl (Error (lit ''Forbidden''))))
              (config (with_hosting reviewing))
              hello_world ((with_hosting reviewing)\<lparr>step := DEPLOYING, isLoading := True\<rparr>)))) = Inr ()"
    by (simp add: run_defs github_up_def)
  have v3: "fst (vercel_step (browser github_up (Inr hello_world) (Inl (Error (lit ''Forbidden''))))
        (config (with_hosting reviewing)) hello_world
        (snd (push_files_step (browser github_up (Inr hello_world) (Inl (Error (lit ''Forbidden''))))
           (config (with_hosting reviewing)) hello_world
           (snd (create_repo_step (browser github_up (Inr hello_world) (Inl (Error (lit ''Forbidden''))))
              (config (with_hosting reviewing))
              hello_world ((with_hosting reviewing)\<lparr>step := DEPLOYING, isLoading := True\<rparr>)))))) = Inl (Error (lit ''Forbidden''))"
    by (simp add: run_defs github_up_def lit_Cons)
  note pair = prod.collapse [symmetric]
  from handleDeploy_failure [of reviewing hello_world "browser (github_down None) (Inr hello_world) (Inr ())"]
    p(1) c1 pair
  have r1: "failed_deploy reviewing
     (snd (create_repo_step (browser (github_down None) (Inr hello_world) (Inr ())) (config reviewing)
        hello_world (reviewing\<lparr>step := DEPLOYING, isLoading := True\<rparr>)))
     (Error (lit ''GitHub Create Repo Error: undefined''))
     (handleDeploy (browser (github_down None) (Inr hello_world) (Inr ())) reviewing)"
    by metis
  from handleDeploy_failure [of reviewing hello_world "browser github_readonly (Inr hello_world) (Inr ())"]
    p(1) c2 p2 pair
  have r2: "failed_deploy reviewing
     (snd (push_files_step (browser github_readonly (Inr hello_world) (Inr ())) (config reviewing)
        hello_world
        (snd (create_repo_step (browser github_readonly (Inr hello_world) (Inr ())) (config reviewing)
           hello_world (reviewing\<lparr>step := DEPLOYING, isLoading := True\<rparr>)))))
     (Error (lit ''Failed to upload index.html''))
     (handleDeploy (browser github_readonly (Inr hello_world) (Inr ())) reviewing)"
    by metis
  from handleDeploy_failure [of "with_hosting reviewing" hello_world
      "browser github_up (Inr hello_world) (Inl (Error (lit ''Forbidden'')))"]
    p(2) c3 p3 v3 pair
  have r3: "failed_deploy (with_hosting reviewing)
     (snd (vercel_step (browser github_up (Inr hello_world) (Inl (Error (lit ''Forbidden''))))
        (config (with_hosting reviewing)) hello_world
        (snd (push_files_step (browser github_up (Inr hello_world) (Inl (Error (lit ''Forbidden''))))
           (config (with_hosting reviewing)) hello_world
           (snd (create_repo_step (browser github_up (Inr hello_world) (Inl (Error (lit ''Forbidden''))))
              (config (with_hosting reviewing))
              hello_world ((with_hosting reviewing)\<lparr>step := DEPLOYING, isLoading := True\<rparr>)))))))
     (Error (lit ''Forbidden''))
     (handleDeploy (browser github_up (Inr hello_world) (Inl (Error (lit ''Forbidden'')))) (with_hosting reviewing))"
    by metis
  from r1 r2 r3 show ?thesis by blast
qed

text \<open>
  Claim C6, as the code has it. With a project stored, the account identifier resolved
  and no hosting token, a deployment whose repository creation succeeds and names the
  repository's URL, and whose file pushes succeed, ends in stage Success with that
  repository URL set; the deployment URL is the one
  stored before the call; the entries logged are the creation, the repository, one per
  file, the end of the push and the skipped hosting, in this order. When neither the
  repository URL nor a file path contains \<open>Skipping Vercel deployment\<close>, exactly one of
  the logged entries contains it.
\<close>

theorem handleDeploy_without_hosting:
  "project s = Some p \<and> githubUsername (config s) \<noteq> [] \<and> vercelToken (config s) = [] \<and>
   create_repo_step env (config s) p (s\<lparr>step := DEPLOYING, isLoading := True\<rparr>) = (Inr (), sa) \<and>
   repoUrl sa = Some link \<and>
   push_files_step env (config s) p sa = (Inr (), sb) \<longrightarrow>
      step (handleDeploy env s) = SUCCESS \<and>
      repoUrl (handleDeploy env s) = Some link \<and>
      deploymentUrl (handleDeploy env s) = deploymentUrl s \<and>
      narration (logs (handleDeploy env s)) =
        narration (logs s) @
          [(lit ''Creating GitHub repository...'', info),
           (lit ''Repository created: '' @ link, success)] @
          map (\<lambda>f. (progress_message f, info)) (files p) @
          [(lit ''All files pushed to GitHub.'', success),
           (lit ''Skipping Vercel deployment (no token provided).'', warning)] \<and>
      (\<not> includes_js link (lit ''Skipping Vercel deployment'') \<and>
       (\<forall>f\<in>set (files p). \<not> includes_js (path f) (lit ''Skipping Vercel deployment'')) \<longrightarrow>
         length (filter mentions_skip
           (drop (length (logs s)) (narration (logs (handleDeploy env s))))) = 1)"
proof
  assume h: "project s = Some p \<and> githubUsername (config s) \<noteq> [] \<and> vercelToken (config s) = [] \<and>
   create_repo_step env (config s) p (s\<lparr>step := DEPLOYING, isLoading := True\<rparr>) = (Inr (), sa) \<and>
   repoUrl sa = Some link \<and>
   push_files_step env (config s) p sa = (Inr (), sb)"
  then have one: "create_repo_step env (config s) p (s\<lparr>step := DEPLOYING, isLoading := True\<rparr>) = (Inr (), sa)"
    and two: "push_files_step env (config s) p sa = (Inr (), sb)"
    and none: "vercelToken (config s) = []"
    and named: "repoUrl sa = Some link"
    by simp_all
  let ?skip = "addLog env (lit ''Skipping Vercel deployment (no token provided).'') warning sb"
  from one two none have "deploy_try env (config s) p (s\<lparr>step := DEPLOYING, isLoading := True\<rparr>)
      = (Inr (), ?skip\<lparr>step := SUCCESS\<rparr>)"
    by (simp add: deploy_try_def vercel_step_skip)
  with h have final: "handleDeploy env s = ?skip\<lparr>step := SUCCESS, isLoading := False\<rparr>"
    by (simp add: handleDeploy_def)
  from create_repo_step_ok [OF one] obtain answered where
    answered: "repoUrl sa = stored answered"
      "narration (logs sa) = narration (logs s) @
         [(lit ''Creating GitHub repository...'', info),
          (lit ''Repository created: '' @ template answered, success)]"
    by auto
  from answered(1) named have "template answered = link" by (simp add: stored_template)
  with answered(2) have link: "narration (logs sa) = narration (logs s) @
         [(lit ''Creating GitHub repository...'', info), (lit ''Repository created: '' @ link, success)]"
    by simp
  from create_repo_step_frame [OF one] have da: "deploymentUrl sa = deploymentUrl s" by simp
  from push_files_step_frame [OF two] have fb: "repoUrl sb = repoUrl sa" "deploymentUrl sb = deploymentUrl sa"
    by (simp_all add: only_world_and_logs_def)
  note nb = push_files_step_ok [OF two]
  have narr: "narration (logs (handleDeploy env s)) =
        narration (logs s) @
          [(lit ''Creating GitHub repository...'', info),
           (lit ''Repository created: '' @ link, success)] @
          map (\<lambda>f. (progress_message f, info)) (files p) @
          [(lit ''All files pushed to GitHub.'', success),
           (lit ''Skipping Vercel deployment (no token provided).'', warning)]"
    by (simp add: final nb link)
  have count: "length (filter mentions_skip
           (drop (length (logs s)) (narration (logs (handleDeploy env s))))) = 1"
    if clean: "\<not> includes_js link (lit ''Skipping Vercel deployment'') \<and>
       (\<forall>f\<in>set (files p). \<not> includes_js (path f) (lit ''Skipping Vercel deployment''))"
  proof -
    have len: "length (logs s) = length (narration (logs s))" by (simp add: narration_def)
    have "length (filter mentions_skip
            ([(lit ''Creating GitHub repository...'', info),
              (lit ''Repository created: '' @ link, success)] @
             map (\<lambda>f. (progress_message f, info)) (files p) @
             [(lit ''All files pushed to GitHub.'', success),
              (lit ''Skipping Vercel deployment (no token provided).'', warning)])) = 1"
      using clean
      by (intro count_one) (simp_all add: mentions_skip_fixed mentions_skip_created mentions_skip_progress)
    then show ?thesis by (simp only: narr len append_eq_conv_conj drop_append list.size drop_all) simp
  qed
  from final named fb da narr count
  show "step (handleDeploy env s) = SUCCESS \<and>
      repoUrl (handleDeploy env s) = Some link \<and>
      deploymentUrl (handleDeploy env s) = deploymentUrl s \<and>
      narration (logs (handleDeploy env s)) =
        narration (logs s) @
          [(lit ''Creating GitHub repository...'', info),
           (lit ''Repository created: '' @ link, success)] @
          map (\<lambda>f. (progress_message f, info)) (files p) @
          [(lit ''All files pushed to GitHub.'', success),
           (lit ''Skipping Vercel deployment (no token provided).'', warning)] \<and>
      (\<not> includes_js link (lit ''Skipping Vercel deployment'') \<and>
       (\<forall>f\<in>set (files p). \<not> includes_js (path f) (lit ''Skipping Vercel deployment'')) \<longrightarrow>
         length (filter mentions_skip
           (drop (length (logs s)) (narration (logs (handleDeploy env s))))) = 1)"
    by simp
qed

text \<open>The theorem at the scenario of the specification: the hello-world project, no hosting token.\<close>

theorem handleDeploy_without_hosting_witness:
  "project reviewing = Some hello_world
   \<and> githubUsername (config reviewing) \<noteq> []
   \<and> vercelToken (config reviewing) = []
   \<and> step (handleDeploy (browser github_up (Inr hello_world) (Inr ())) reviewing) = SUCCESS
   \<and> repoUrl (handleDeploy (browser github_up (Inr hello_world) (Inr ())) reviewing)
       = Some (lit ''https://github.com/octocat/hello-world'')
   \<and> deploymentUrl (handleDeploy (browser github_up (Inr hello_world) (Inr ())) reviewing) = None
   \<and> length (filter mentions_skip (drop (length (logs reviewing))
        (narration (logs (handleDeploy (browser github_up (Inr hello_world) (Inr ())) reviewing)))))
       = 1"
proof -
  let ?env = "browser github_up (Inr hello_world) (Inr ())"
  let ?sa = "snd (create_repo_step ?env (config reviewing) hello_world
                (reviewing\<lparr>step := DEPLOYING, isLoading := True\<rparr>))"
  let ?sb = "snd (push_files_step ?env (config reviewing) hello_world ?sa)"
  have p: "project reviewing = Some hello_world" "githubUsername (config reviewing) \<noteq> []"
    "vercelToken (config reviewing) = []"
    by (simp_all add: reviewing_def lit_Cons)
  have "fst (create_repo_step ?env (config reviewing) hello_world
                (reviewing\<lparr>step := DEPLOYING, isLoading := True\<rparr>)) = Inr ()"
    by (simp add: run_defs github_up_def)
  then have one: "create_repo_step ?env (config reviewing) hello_world
                (reviewing\<lparr>step := DEPLOYING, isLoading := True\<rparr>) = (Inr (), ?sa)"
    by (metis prod.collapse)
  have "fst (push_files_step ?env (config reviewing) hello_world ?sa) = Inr ()"
    by (simp add: run_defs github_up_def)
  then have two: "push_files_step ?env (config reviewing) hello_world ?sa = (Inr (), ?sb)"
    by (metis prod.collapse)
  define link where "link = lit ''https://github.com/octocat/hello-world''"
  have named: "repoUrl ?sa = Some link"
    by (simp add: run_defs github_up_def link_def lit_Cons lit_Nil)
  from handleDeploy_without_hosting [of reviewing hello_world ?env ?sa link ?sb] p one named two
  have a: "step (handleDeploy ?env reviewing) = SUCCESS"
      "repoUrl (handleDeploy ?env reviewing) = Some link"
      "deploymentUrl (handleDeploy ?env reviewing) = deploymentUrl reviewing"
    and b: "\<not> includes_js link (lit ''Skipping Vercel deployment'') \<and>
       (\<forall>f\<in>set (files hello_world). \<not> includes_js (path f) (lit ''Skipping Vercel deployment'')) \<longrightarrow>
         length (filter mentions_skip
           (drop (length (logs reviewing)) (narration (logs (handleDeploy ?env reviewing))))) = 1"
    by blast+
  note link = link_def
  have clean: "\<not> includes_js link (lit ''Skipping Vercel deployment'') \<and>
       (\<forall>f\<in>set (files hello_world). \<not> includes_js (path f) (lit ''Skipping Vercel deployment''))"
    by (simp add: link hello_world_def lit_Cons lit_Nil)
  from b clean have "length (filter mentions_skip
           (drop (length (logs reviewing)) (narration (logs (handleDeploy ?env reviewing))))) = 1"
    by blast
  moreover have "deploymentUrl reviewing = None" by (simp add: reviewing_def)
  ultimately show ?thesis using p a link by simp
qed

lemma return_visit_cells:
  "step return_visit = REVIEW"
  "project return_visit = Some release_notes"
  "config return_visit = \<lparr>githubToken = lit ''t'', vercelToken = [], githubUsername = lit ''octocat'', geminiKey = []\<rparr>"
  "deploymentUrl return_visit = Some (lit ''https://notes.vercel.app'')"
  "repoUrl return_visit = Some (lit ''https://github.com/octocat/notes'')"
  "isLoading return_visit = False"
  "world return_visit = 8"
  "length (logs return_visit) = 15"
  unfolding return_visit_def second_visit_def
  by (simp_all add: session_defs run_defs release_notes_def github_up_def lit_Cons lit_Nil
      check_request_def upload_request_def create_request_def verify_request_def)

text \<open>
  Claim C6 as stated leaves the deployment URL unset and logs exactly one entry that
  contains \<open>Skipping Vercel deployment\<close>. On a return visit (a deployment with hosting,
  then the hosting token removed and a project generated whose file name contains these
  words) the deployment succeeds with the earlier deployment URL still stored and with
  two such entries.
\<close>

theorem handleDeploy_without_hosting_counterexample:
  "step return_visit = REVIEW
   \<and> project return_visit = Some release_notes
   \<and> githubUsername (config return_visit) = lit ''octocat''
   \<and> vercelToken (config return_visit) = []
   \<and> step (handleDeploy (browser github_up (Inr release_notes) (Inr ())) return_visit) = SUCCESS
   \<and> repoUrl (handleDeploy (browser github_up (Inr release_notes) (Inr ())) return_visit)
       = Some (lit ''https://github.com/octocat/notes'')
   \<and> deploymentUrl (handleDeploy (browser github_up (Inr release_notes) (Inr ())) return_visit)
       = Some (lit ''https://notes.vercel.app'')
   \<and> length (filter mentions_skip (drop (length (logs return_visit))
        (narration (logs (handleDeploy (browser github_up (Inr release_notes) (Inr ())) return_visit)))))
       = 2"
  by (simp add: return_visit_cells handleDeploy_def deploy_try_def create_repo_step_def
      push_files_step_def vercel_step_def createRepository_def fetch_in_def addLog_def browser_def
      Let_def narration_def created_json_def create_request_def check_request_def upload_request_def
      release_notes_def github_up_def mentions_skip_def progress_message_def lit_Cons lit_Nil)


section \<open>Sessions\<close>









end
